theory Spec2Isabelle
  imports Main
begin

section \<open>The Elasticsearch adapter: values, errors and outcomes\<close>

text \<open>
  The adapter (\<^verbatim>\<open>src/lib/adapter.js\<close>) is JavaScript in callback style. The file holds two
  definitions of the adapter module one after the other: the first (lines 1 to 832) and a
  second one (lines 834 to 1388). Where both define a function that a property speaks of,
  both are embedded here; the second carries the suffix \<open>2\<close>.

  JavaScript values are a datatype. An object is the list of its own enumerable properties
  in enumeration order; \<open>JHole\<close> stands for the empty slot that \<^verbatim>\<open>delete a[i]\<close> leaves in an
  array and occurs nowhere else; \<open>JNative\<close> is a built-in function or object, such as the
  ones every object inherits from \<^verbatim>\<open>Object.prototype\<close>: it is truthy and has no enumerable
  property of its own.
\<close>

datatype jsval =
    JUndefined
  | JNull
  | JBool bool
  | JNum int
  | JStr string
  | JArr "jsval list"
  | JObj "(string \<times> jsval) list"
  | JHole
  | JNative

type_synonym object = "(string \<times> jsval) list"

text \<open>
  An exception or an error handed to a callback: a \<^verbatim>\<open>TypeError\<close> of the runtime (a property
  read from \<^verbatim>\<open>undefined\<close> or \<^verbatim>\<open>null\<close>), an \<^verbatim>\<open>Error\<close> the adapter builds with its message, or an
  error that comes from the Elasticsearch client library.
\<close>

datatype error = TypeError | Error string | ClientError string

text \<open>
  What a call of an adapter function comes to: an exception leaves the function (\<open>Threw\<close>),
  the callback is invoked with an error (\<open>CbErr\<close>), the callback is invoked with a result
  (\<open>CbOk\<close>), or the function returns and the callback is never invoked (\<open>NoCb\<close>).
\<close>

datatype 'a outcome = Threw error | CbErr error | CbOk 'a | NoCb

section \<open>The connection registry\<close>

text \<open>
  A connection's configuration as far as the adapter reads it: \<^verbatim>\<open>identity\<close> and \<^verbatim>\<open>index\<close>.
  \<open>None\<close> is a property that is \<^verbatim>\<open>undefined\<close> or \<^verbatim>\<open>null\<close> (the code tests both with
  \<^verbatim>\<open>== undefined\<close> or by truthiness, which do not tell the two apart).
\<close>

record connection_config =
  cfg_identity :: "string option"
  cfg_index :: "string option"

text \<open>
  A collection's metadata as the helpers read it: \<^verbatim>\<open>adapter.identity\<close> (the outer \<open>None\<close>
  is a collection without \<^verbatim>\<open>adapter\<close>), \<^verbatim>\<open>primaryKey\<close> and \<^verbatim>\<open>_attributes\<close>. An attribute's
  definition carries \<^verbatim>\<open>type\<close>, \<^verbatim>\<open>restrictAttributes\<close> and \<^verbatim>\<open>skipAttributes\<close>; the two lists are
  lists of sub-key names.
\<close>

record attribute_def =
  attr_type :: "string option"
  attr_restrictAttributes :: "string list option"
  attr_skipAttributes :: "string list option"

record collection =
  coll_adapter :: "string option option"
  coll_primaryKey :: "string option"
  coll_attributes :: "(string \<times> attribute_def) list option"

text \<open>
  \<^verbatim>\<open>connection.js\<close> (\<^verbatim>\<open>src/unnamed/part_000\<close>): a \<^verbatim>\<open>Connection\<close> object holds the configuration
  and the client handle. The handle is a value of the client library, of type \<open>'h\<close> here.
\<close>

record 'h Connection =
  conn_config :: connection_config
  conn_connection :: 'h

text \<open>
  The registry entry that \<^verbatim>\<open>registerConnection\<close> stores: \<^verbatim>\<open>config\<close>, \<^verbatim>\<open>collections\<close> and, once
  the connection is open, \<^verbatim>\<open>connection\<close>. The registry \<^verbatim>\<open>connections\<close> maps an identity to its
  entry.
\<close>

record 'h registration =
  reg_config :: connection_config
  reg_collections :: "string \<rightharpoonup> collection"
  reg_connection :: "'h Connection option"

type_synonym 'h connections = "string \<rightharpoonup> 'h registration"

text \<open>
  \<^verbatim>\<open>Connection.prototype.connect\<close>: builds the client with \<^verbatim>\<open>new elasticsearch.Client(config)\<close>
  and calls back with a null error and the client. The constructor belongs to the client
  library; it is the parameter \<open>new_Client\<close>, which yields the handle or throws.
  The result is the exception, or the pair (error, client) given to the callback.
\<close>

definition connect ::
  "(connection_config \<Rightarrow> error + 'h) \<Rightarrow> connection_config \<Rightarrow> error + (error option \<times> 'h)" where
  "connect new_Client config =
     (case new_Client config of
        Inl e \<Rightarrow> Inl e
      | Inr client \<Rightarrow> Inr (None, client))"

text \<open>
  The \<^verbatim>\<open>Connection\<close> constructor: calls \<^verbatim>\<open>connect\<close>; on an error it calls back with the
  error, otherwise it stores the client and calls back with itself.
\<close>

definition Connection ::
  "(connection_config \<Rightarrow> error + 'h) \<Rightarrow> connection_config \<Rightarrow> 'h Connection outcome" where
  "Connection new_Client config =
     (case connect new_Client config of
        Inl e \<Rightarrow> Threw e
      | Inr (Some err, client) \<Rightarrow> CbErr err
      | Inr (None, client) \<Rightarrow> CbOk \<lparr>conn_config = config, conn_connection = client\<rparr>)"

text \<open>
  The registry is a plain object \<^verbatim>\<open>{}\<close>, so \<^verbatim>\<open>connections[name]\<close> also finds what every
  object inherits from \<^verbatim>\<open>Object.prototype\<close>. The truthiness test \<^verbatim>\<open>if (connections[name])\<close>
  therefore holds for a stored entry and for each of these names.
\<close>

definition Object_prototype_names :: "string list" where
  "Object_prototype_names =
     [''constructor'', ''hasOwnProperty'', ''isPrototypeOf'', ''propertyIsEnumerable'',
      ''toLocaleString'', ''toString'', ''valueOf'', ''__proto__'', ''__defineGetter__'',
      ''__defineSetter__'', ''__lookupGetter__'', ''__lookupSetter__'']"

definition connections_truthy :: "'h connections \<Rightarrow> string \<Rightarrow> bool" where
  "connections_truthy connections name =
     (connections name \<noteq> None \<or> name \<in> set Object_prototype_names)"

text \<open>
  \<^verbatim>\<open>registerConnection(connection, collections, cb)\<close>, lines 269 to 287 (and, word for word,
  1013 to 1031). The result is the registry after the call and the outcome.
  \<^verbatim>\<open>!connection.identity\<close> holds for a missing identity and for the empty string.
\<close>

definition registerConnection ::
  "(connection_config \<Rightarrow> error + 'h) \<Rightarrow> 'h connections \<Rightarrow> connection_config \<Rightarrow>
   (string \<rightharpoonup> collection) option \<Rightarrow> 'h connections \<times> 'h Connection outcome" where
  "registerConnection new_Client connections connection collections =
     (case cfg_identity connection of
        None \<Rightarrow> (connections, CbErr (Error ''Connection is missing an identity.''))
      | Some ident \<Rightarrow>
          if ident = [] then (connections, CbErr (Error ''Connection is missing an identity.''))
          else if connections_truthy connections ident
            then (connections, CbErr (Error ''Connection is already registered.''))
          else
            let connections1 = connections(ident \<mapsto>
                  \<lparr>reg_config = connection,
                   reg_collections = (case collections of None \<Rightarrow> Map.empty | Some c \<Rightarrow> c),
                   reg_connection = None\<rparr>)
            in (case Connection new_Client connection of
                  CbOk conn \<Rightarrow>
                    (connections1(ident \<mapsto>
                       \<lparr>reg_config = connection,
                        reg_collections = (case collections of None \<Rightarrow> Map.empty | Some c \<Rightarrow> c),
                        reg_connection = Some conn\<rparr>), CbOk conn)
                | CbErr err \<Rightarrow> (connections1, CbErr err)
                | Threw e \<Rightarrow> (connections1, Threw e)
                | NoCb \<Rightarrow> (connections1, NoCb)))"

text \<open>
  \<^verbatim>\<open>getIndex(connections, connectionName, collectionName, index)\<close>, lines 31 to 50 (and 850 to
  869). The registry is read only when no index is given; reading \<^verbatim>\<open>.config\<close> of a
  connection that is not registered throws.
\<close>

definition getIndex ::
  "'h connections \<Rightarrow> string \<Rightarrow> string \<Rightarrow> string option \<Rightarrow> error + string" where
  "getIndex connections connectionName collectionName index =
     (case index of
        Some i \<Rightarrow> Inr i
      | None \<Rightarrow>
          (case connections connectionName of
             None \<Rightarrow> Inl TypeError
           | Some reg \<Rightarrow>
               (case cfg_index (reg_config reg) of
                  Some i \<Rightarrow> Inr i
                | None \<Rightarrow> Inr collectionName)))"

section \<open>The query translator of \<^verbatim>\<open>find\<close>\<close>

text \<open>
  The criteria that \<^verbatim>\<open>find\<close>, \<^verbatim>\<open>update\<close> and \<^verbatim>\<open>destroy\<close> receive: \<^verbatim>\<open>where\<close> is a mapping from
  field paths to values, \<^verbatim>\<open>sort\<close> a mapping from fields to the codes 1 and -1, \<^verbatim>\<open>skip\<close> and
  \<^verbatim>\<open>limit\<close> integers. \<open>None\<close> is a property that is \<^verbatim>\<open>undefined\<close> or \<^verbatim>\<open>null\<close>.
\<close>

record criteria =
  crit_where :: "object option"
  crit_skip :: "int option"
  crit_limit :: "int option"
  crit_sort :: "(string \<times> int) list option"

text \<open>
  \<^verbatim>\<open>obj[key]\<close> on an object: the own property, else what \<^verbatim>\<open>Object.prototype\<close> provides under
  that name, else \<^verbatim>\<open>undefined\<close>.
\<close>

definition get_prop :: "object \<Rightarrow> string \<Rightarrow> jsval" where
  "get_prop obj key =
     (case map_of obj key of
        Some v \<Rightarrow> v
      | None \<Rightarrow> if key \<in> set Object_prototype_names then JNative else JUndefined)"

text \<open>\<^verbatim>\<open>Array.isArray(value)\<close>.\<close>

fun isArray :: "jsval \<Rightarrow> bool" where
  "isArray (JArr xs) = True"
| "isArray v = False"

text \<open>
  \<^verbatim>\<open>smartTermOrTermsQuery(field, value)\<close>, lines 124 to 139: a \<^verbatim>\<open>terms\<close> filter for an array,
  a \<^verbatim>\<open>term\<close> filter otherwise.
\<close>

definition smartTermOrTermsQuery :: "string \<Rightarrow> jsval \<Rightarrow> jsval" where
  "smartTermOrTermsQuery field v =
     (if isArray v then JObj [(''terms'', JObj [(field, v)])]
      else JObj [(''term'', JObj [(field, v)])])"

text \<open>
  \<^verbatim>\<open>field.split('.')\<close>: the pieces between the dots, empty pieces included; never the empty
  list.
\<close>

fun split_dot :: "string \<Rightarrow> string list" where
  "split_dot [] = [[]]"
| "split_dot (c # cs) =
     (if c = CHR ''.'' then [] # split_dot cs
      else (case split_dot cs of
              [] \<Rightarrow> [[c]]
            | p # ps \<Rightarrow> (c # p) # ps))"

text \<open>
  The \<^verbatim>\<open>reduce\<close> of lines 506 to 523 over the field's parts without the last one. The
  accumulator is \<^verbatim>\<open>[path, object to fill, termFilter]\<close>; the model passes \<open>path\<close> (\<^verbatim>\<open>result[0]\<close>)
  and returns what the object \<^verbatim>\<open>result[1]\<close> holds when the reduction is over. \<open>key\<close> is the
  index of the part at hand, \<open>fieldPartsCount\<close> the number of parts before \<^verbatim>\<open>pop\<close>. The test
  \<^verbatim>\<open>result[0] ? ... : ...\<close> is on a string, which is falsy when empty. After the step that
  returns nothing, a further part would read \<^verbatim>\<open>result[0]\<close> of \<^verbatim>\<open>undefined\<close>.
\<close>

fun nested_reduce :: "nat \<Rightarrow> nat \<Rightarrow> string \<Rightarrow> string list \<Rightarrow> jsval \<Rightarrow> error + jsval" where
  "nested_reduce fieldPartsCount key path0 [] termFilter = Inr (JObj [])"
| "nested_reduce fieldPartsCount key path0 (v # rest) termFilter =
     (let path = (if path0 \<noteq> [] then path0 @ ''.'' @ v else v) in
      if int key < int fieldPartsCount - 2 then
        (case nested_reduce fieldPartsCount (key + 1) path rest termFilter of
           Inl e \<Rightarrow> Inl e
         | Inr q \<Rightarrow> Inr (JObj [(''nested'', JObj [(''path'', JStr path), (''query'', q)])]))
      else if rest \<noteq> [] then Inl TypeError
      else Inr (JObj [(''nested'', JObj [(''path'', JStr path),
                  (''query'', JObj [(''bool'', JObj [(''filter'', termFilter)])])])]))"

text \<open>The filter that lines 491 to 526 push for one field of \<^verbatim>\<open>where\<close>.\<close>

definition field_filter :: "string \<Rightarrow> jsval \<Rightarrow> error + jsval" where
  "field_filter field v =
     (let fieldParts = split_dot field;
          fieldPartsCount = length fieldParts
      in if fieldPartsCount = 1 then Inr (smartTermOrTermsQuery field v)
         else nested_reduce fieldPartsCount 0 [] (butlast fieldParts)
                (smartTermOrTermsQuery field v))"

text \<open>The loop \<^verbatim>\<open>for (field in options.where)\<close> over the keys, pushing one filter each.\<close>

fun push_filters :: "object \<Rightarrow> string list \<Rightarrow> jsval list \<Rightarrow> error + jsval list" where
  "push_filters w [] filters = Inr filters"
| "push_filters w (field # rest) filters =
     (case field_filter field (get_prop w field) of
        Inl e \<Rightarrow> Inl e
      | Inr f \<Rightarrow> push_filters w rest (filters @ [f]))"

text \<open>\<^verbatim>\<open>body.query\<close> as lines 477 to 526 build it.\<close>

definition find_query :: "criteria \<Rightarrow> error + jsval" where
  "find_query options =
     (case crit_where options of
        None \<Rightarrow> Inr (JObj [(''match_all'', JObj [])])
      | Some w \<Rightarrow>
          (case push_filters w (map fst w) [] of
             Inl e \<Rightarrow> Inl e
           | Inr filters \<Rightarrow> Inr (JObj [(''bool'', JObj [(''filter'', JArr filters)])])))"

text \<open>Lines 528 to 554: \<^verbatim>\<open>from\<close>, \<^verbatim>\<open>size\<close> and \<^verbatim>\<open>sort\<close>, added to the body when requested.\<close>

definition sort_query :: "string \<times> int \<Rightarrow> jsval" where
  "sort_query s =
     JObj [(fst s, JObj [(''order'', JStr (if snd s = 1 then ''asc'' else ''desc''))])]"

definition page_and_sort :: "criteria \<Rightarrow> object" where
  "page_and_sort options =
     (case crit_skip options of None \<Rightarrow> [] | Some n \<Rightarrow> [(''from'', JNum n)])
     @ (case crit_limit options of None \<Rightarrow> [] | Some n \<Rightarrow> [(''size'', JNum n)])
     @ (case crit_sort options of
          None \<Rightarrow> []
        | Some sortFields \<Rightarrow>
            if sortFields = [] then []
            else [(''sort'', JArr (map sort_query sortFields))])"

text \<open>The \<^verbatim>\<open>body\<close> that the first \<^verbatim>\<open>find\<close> sends to \<^verbatim>\<open>client.search\<close>.\<close>

definition find_body :: "criteria \<Rightarrow> error + jsval" where
  "find_body options =
     (case find_query options of
        Inl e \<Rightarrow> Inl e
      | Inr q \<Rightarrow> Inr (JObj ((''query'', q) # page_and_sort options)))"

text \<open>
  The second \<^verbatim>\<open>find\<close>, lines 1133 to 1145: the body always holds a \<^verbatim>\<open>bool\<close> query, with one
  \<^verbatim>\<open>term\<close> filter for each field of \<^verbatim>\<open>where\<close>.
\<close>

definition find_body2 :: "criteria \<Rightarrow> jsval" where
  "find_body2 options =
     JObj [(''query'', JObj [(''bool'', JObj [(''filter'',
       JArr (case crit_where options of
               None \<Rightarrow> []
             | Some w \<Rightarrow> map (\<lambda>field. JObj [(''term'', JObj [(field, get_prop w field)])])
                           (map fst w)))])])]"

section \<open>Reading a query document\<close>

text \<open>
  The words of the specification about a filter, as functions on the document: the paths of
  the \<^verbatim>\<open>nested\<close> clauses around it from the outside in, and the clause that remains inside
  them (under the \<^verbatim>\<open>bool\<close>/\<^verbatim>\<open>filter\<close> of the innermost \<^verbatim>\<open>nested\<close> clause).
\<close>

fun nested_paths :: "jsval \<Rightarrow> string list" where
  "nested_paths (JObj [(k, JObj [(kp, JStr p), (kq, q)])]) =
     (if k = ''nested'' \<and> kp = ''path'' \<and> kq = ''query'' then p # nested_paths q else [])"
| "nested_paths v = []"

fun terminal_clause :: "jsval \<Rightarrow> jsval" where
  "terminal_clause (JObj [(k, JObj [(kp, JStr p), (kq, q)])]) =
     (if k = ''nested'' \<and> kp = ''path'' \<and> kq = ''query'' then terminal_clause q
      else JObj [(k, JObj [(kp, JStr p), (kq, q)])])"
| "terminal_clause (JObj [(k, JObj [(kf, t)])]) =
     (if k = ''bool'' \<and> kf = ''filter'' then t else JObj [(k, JObj [(kf, t)])])"
| "terminal_clause v = v"

text \<open>
  \<^verbatim>\<open>parts.join('.')\<close>, and the dot-joined prefixes of a path that leave out at least the last
  part, shortest first: for \<open>a.b.c\<close> they are \<open>a\<close> and \<open>a.b\<close>.
\<close>

fun join_dot :: "string list \<Rightarrow> string" where
  "join_dot [] = []"
| "join_dot [p] = p"
| "join_dot (p # q # ps) = p @ ''.'' @ join_dot (q # ps)"

definition cumulative_prefixes :: "string list \<Rightarrow> string list" where
  "cumulative_prefixes parts = map (\<lambda>k. join_dot (take k parts)) [1..<length parts]"

text \<open>A clause wrapped in one \<^verbatim>\<open>nested\<close> clause for each path, the first path outermost.\<close>

fun wrap_nested :: "string list \<Rightarrow> jsval \<Rightarrow> jsval" where
  "wrap_nested [] inner = inner"
| "wrap_nested (p # ps) inner =
     JObj [(''nested'', JObj [(''path'', JStr p), (''query'', wrap_nested ps inner)])]"

section \<open>The response mapper\<close>

text \<open>
  \<^verbatim>\<open>obj[key] = v\<close>: an own property keeps its place and takes the new value, a new property
  goes to the end.
\<close>

fun set_prop :: "object \<Rightarrow> string \<Rightarrow> jsval \<Rightarrow> object" where
  "set_prop [] key v = [(key, v)]"
| "set_prop ((k, x) # obj) key v =
     (if k = key then (k, v) # obj else (k, x) # set_prop obj key v)"

text \<open>
  A document as the Elasticsearch client returns it from \<^verbatim>\<open>get\<close>, in the \<^verbatim>\<open>hits\<close> of \<^verbatim>\<open>search\<close>
  and in the \<^verbatim>\<open>docs\<close> of \<^verbatim>\<open>mget\<close>: \<^verbatim>\<open>_id\<close>, \<^verbatim>\<open>found\<close> (read by \<^verbatim>\<open>getFound\<close> only) and the stored
  body \<^verbatim>\<open>_source\<close>. A search response carries \<^verbatim>\<open>hits.total\<close> and \<^verbatim>\<open>hits.hits\<close>.
\<close>

record es_hit =
  hit_id :: jsval
  hit_found :: bool
  hit_source :: object

record search_response =
  resp_total :: int
  resp_hits :: "es_hit list"

text \<open>\<^verbatim>\<open>hitToModel(hit)\<close>, lines 115 to 119: the stored body with \<^verbatim>\<open>_id\<close> set.\<close>

definition hitToModel :: "es_hit \<Rightarrow> jsval" where
  "hitToModel hit = JObj (set_prop (hit_source hit) ''_id'' (hit_id hit))"

text \<open>
  The limit of line 20, \<^verbatim>\<open>_(sails.config).get('custom.async.limit') || 100\<close>: the application's
  setting (a count), or 100 when that is missing or zero. The functions below take the
  setting as \<open>configured\<close>.
\<close>

definition asyncLimit :: "nat option \<Rightarrow> nat" where
  "asyncLimit configured = (case configured of None \<Rightarrow> 100 | Some n \<Rightarrow> if n = 0 then 100 else n)"

text \<open>
  \<^verbatim>\<open>async.eachLimit(coll, limit, iteratee, callback)\<close> of the \<^verbatim>\<open>async\<close> library, for an iteratee
  that completes before it returns, as all iteratees of the adapter do: the items are
  visited in order, whatever the positive limit, and the first error ends the iteration. The
  iteratee works on the state \<open>s\<close> (the \<^verbatim>\<open>results\<close> array it pushes to) and gives the error, if
  any, that it passes to its callback \<^verbatim>\<open>c\<close>. \<^verbatim>\<open>async.each\<close> is the same without limit.
\<close>

fun eachLimit :: "'a list \<Rightarrow> nat \<Rightarrow> ('a \<Rightarrow> 's \<Rightarrow> 's \<times> error option) \<Rightarrow> 's \<Rightarrow> 's \<times> error option" where
  "eachLimit [] limit iteratee s = (s, None)"
| "eachLimit (x # xs) limit iteratee s =
     (case iteratee x s of
        (s1, Some err) \<Rightarrow> (s1, Some err)
      | (s1, None) \<Rightarrow> eachLimit xs limit iteratee s1)"

fun each :: "'a list \<Rightarrow> ('a \<Rightarrow> 's \<Rightarrow> 's \<times> error option) \<Rightarrow> 's \<Rightarrow> 's \<times> error option" where
  "each [] iteratee s = (s, None)"
| "each (x # xs) iteratee s =
     (case iteratee x s of
        (s1, Some err) \<Rightarrow> (s1, Some err)
      | (s1, None) \<Rightarrow> each xs iteratee s1)"

text \<open>\<^verbatim>\<open>getHits(esResponse, cb)\<close>, lines 68 to 82.\<close>

definition getHits :: "nat option \<Rightarrow> search_response \<Rightarrow> jsval list outcome" where
  "getHits configured esResponse =
     (let results = [] in
      if resp_total esResponse = 0 then CbOk results
      else (case eachLimit (resp_hits esResponse) (asyncLimit configured)
                   (\<lambda>e results. (results @ [hitToModel e], None)) results of
              (results1, Some err) \<Rightarrow> CbErr err
            | (results1, None) \<Rightarrow> CbOk results1))"

text \<open>
  The second \<^verbatim>\<open>getHits(esResponse, cb)\<close>, lines 882 to 898: with no hits it returns
  \<^verbatim>\<open>results\<close> to its caller, which ignores the value; the records get the identifier as \<^verbatim>\<open>id\<close>.
\<close>

definition getHits2 :: "search_response \<Rightarrow> jsval list outcome" where
  "getHits2 esResponse =
     (let results = [] in
      if resp_total esResponse = 0 then NoCb
      else (case each (resp_hits esResponse)
                   (\<lambda>e results. (results @ [JObj (set_prop (hit_source e) ''id'' (hit_id e))], None))
                   results of
              (results1, Some err) \<Rightarrow> CbErr err
            | (results1, None) \<Rightarrow> CbOk results1))"

text \<open>\<^verbatim>\<open>getFound(esResponse, cb)\<close>, lines 87 to 103, on the \<^verbatim>\<open>docs\<close> of the response.\<close>

definition getFound :: "nat option \<Rightarrow> es_hit list \<Rightarrow> jsval list outcome" where
  "getFound configured docs =
     (let results = [] in
      case eachLimit docs (asyncLimit configured)
             (\<lambda>e results. if hit_found e then (results @ [hitToModel e], None)
                           else (results @ [JBool False], None)) results of
        (results1, Some err) \<Rightarrow> CbErr err
      | (results1, None) \<Rightarrow> CbOk results1)"

section \<open>The client and the operations\<close>

text \<open>
  The client of the Elasticsearch library: each method takes the request and gives its
  callback an error or a response. A request names index, type and, where the method has
  them, \<^verbatim>\<open>id\<close> and \<^verbatim>\<open>body\<close> (\<open>JUndefined\<close> where it has none).
\<close>

record es_request =
  req_index :: string
  req_type :: "string option"
  req_id :: jsval
  req_body :: jsval

record es_client =
  client_search :: "es_request \<Rightarrow> error + search_response"
  client_get :: "es_request \<Rightarrow> error + es_hit"
  client_update :: "es_request \<Rightarrow> error + es_hit"
  client_delete :: "es_request \<Rightarrow> error + unit"
  client_mget :: "es_request \<Rightarrow> error + es_hit list"

text \<open>The calls an operation makes on the client, in order.\<close>

datatype client_method = Search | Get | Update | Delete | Mget

type_synonym calls = "(client_method \<times> es_request) list"

text \<open>
  The helpers of lines 27 to 64. Each reads through the registry; a property read from
  \<^verbatim>\<open>undefined\<close> throws.
\<close>

definition getClient :: "es_client connections \<Rightarrow> string \<Rightarrow> error + es_client" where
  "getClient connections connectionName =
     (case connections connectionName of
        None \<Rightarrow> Inl TypeError
      | Some reg \<Rightarrow>
          (case reg_connection reg of
             None \<Rightarrow> Inl TypeError
           | Some conn \<Rightarrow> Inr (conn_connection conn)))"

definition getCollection :: "'h connections \<Rightarrow> string \<Rightarrow> string \<Rightarrow> error + collection" where
  "getCollection connections connectionName collectionName =
     (case connections connectionName of
        None \<Rightarrow> Inl TypeError
      | Some reg \<Rightarrow>
          (case reg_collections reg collectionName of
             None \<Rightarrow> Inl TypeError
           | Some c \<Rightarrow> Inr c))"

definition getType :: "'h connections \<Rightarrow> string \<Rightarrow> string \<Rightarrow> error + string option" where
  "getType connections connectionName collectionName =
     (case getCollection connections connectionName collectionName of
        Inl e \<Rightarrow> Inl e
      | Inr c \<Rightarrow> (case coll_adapter c of None \<Rightarrow> Inl TypeError | Some ident \<Rightarrow> Inr ident))"

definition getPrimaryKeyField :: "'h connections \<Rightarrow> string \<Rightarrow> string \<Rightarrow> error + string option" where
  "getPrimaryKeyField connections connectionName collectionName =
     (case getCollection connections connectionName collectionName of
        Inl e \<Rightarrow> Inl e
      | Inr c \<Rightarrow> Inr (coll_primaryKey c))"

definition getAttributes ::
  "'h connections \<Rightarrow> string \<Rightarrow> string \<Rightarrow> error + (string \<times> attribute_def) list option" where
  "getAttributes connections connectionName collectionName =
     (case getCollection connections connectionName collectionName of
        Inl e \<Rightarrow> Inl e
      | Inr c \<Rightarrow> Inr (coll_attributes c))"

text \<open>
  The first three lines of every operation: client, index name and type name. The
  operations name the result \<^verbatim>\<open>client\<close>, \<^verbatim>\<open>indexName\<close>, \<^verbatim>\<open>typeName\<close>.
\<close>

definition targets ::
  "es_client connections \<Rightarrow> string \<Rightarrow> string \<Rightarrow> string option \<Rightarrow>
   error + (es_client \<times> string \<times> string option)" where
  "targets connections connectionName collectionName index =
     (case getClient connections connectionName of
        Inl e \<Rightarrow> Inl e
      | Inr client \<Rightarrow>
     (case getIndex connections connectionName collectionName index of
        Inl e \<Rightarrow> Inl e
      | Inr indexName \<Rightarrow>
     (case getType connections connectionName collectionName of
        Inl e \<Rightarrow> Inl e
      | Inr typeName \<Rightarrow> Inr (client, indexName, typeName))))"

text \<open>
  \<^verbatim>\<open>find\<close>, lines 444 to 577: the calls made on the client and the outcome.
\<close>

definition find_records ::
  "nat option \<Rightarrow> es_client connections \<Rightarrow> string \<Rightarrow> string \<Rightarrow> criteria \<Rightarrow> string option \<Rightarrow>
   calls \<times> jsval list outcome" where
  "find_records configured connections connectionName collectionName options index =
     (case targets connections connectionName collectionName index of
        Inl e \<Rightarrow> ([], Threw e)
      | Inr (client, indexName, typeName) \<Rightarrow>
     (case find_body options of
        Inl e \<Rightarrow> ([], Threw e)
      | Inr body \<Rightarrow>
          let request = \<lparr>req_index = indexName, req_type = typeName, req_id = JUndefined,
                         req_body = body\<rparr>
          in (case client_search client request of
                Inl err \<Rightarrow> ([(Search, request)], CbErr err)
              | Inr res \<Rightarrow> ([(Search, request)], getHits configured res))))"

text \<open>\<^verbatim>\<open>mget\<close>, lines 730 to 749.\<close>

definition mget ::
  "nat option \<Rightarrow> es_client connections \<Rightarrow> string \<Rightarrow> string \<Rightarrow> jsval list \<Rightarrow> string option \<Rightarrow>
   calls \<times> jsval list outcome" where
  "mget configured connections connectionName collectionName primaryKeys index =
     (case targets connections connectionName collectionName index of
        Inl e \<Rightarrow> ([], Threw e)
      | Inr (client, indexName, typeName) \<Rightarrow>
          let request = \<lparr>req_index = indexName, req_type = typeName, req_id = JUndefined,
                         req_body = JObj [(''ids'', JArr primaryKeys)]\<rparr>
          in (case client_mget client request of
                Inl err \<Rightarrow> ([(Mget, request)], CbErr err)
              | Inr docs \<Rightarrow> ([(Mget, request)], getFound configured docs)))"

section \<open>The attribute restrictor\<close>

text \<open>Truthiness of a value, as \<^verbatim>\<open>if (v)\<close> and \<^verbatim>\<open>a && b\<close> test it.\<close>

fun truthy :: "jsval \<Rightarrow> bool" where
  "truthy JUndefined = False"
| "truthy JNull = False"
| "truthy (JBool b) = b"
| "truthy (JNum n) = (n \<noteq> 0)"
| "truthy (JStr s) = (s \<noteq> [])"
| "truthy (JArr xs) = True"
| "truthy (JObj obj) = True"
| "truthy JHole = False"
| "truthy JNative = True"

text \<open>The decimal name of an array index, as \<^verbatim>\<open>Object.keys\<close> lists it.\<close>

definition digit_char :: "nat \<Rightarrow> char" where
  "digit_char d = ''0123456789'' ! d"

function string_of_nat :: "nat \<Rightarrow> string" where
  "string_of_nat n =
     (if n < 10 then [digit_char n] else string_of_nat (n div 10) @ [digit_char (n mod 10)])"
  by pat_completeness auto
termination
  by (relation "measure id") auto

declare string_of_nat.simps [simp del]

text \<open>
  \<^verbatim>\<open>Object.keys(v).forEach(function(e) { if (P(e)) delete v[e]; })\<close>, the loop that the
  restrictor runs with three conditions \<open>P\<close>; the result is the value that \<open>v\<close> refers to
  afterwards. \<^verbatim>\<open>Object.keys\<close> throws on \<^verbatim>\<open>undefined\<close> and \<^verbatim>\<open>null\<close>; the keys of an array are the
  indices of its filled slots, and deleting one leaves a hole; numbers, booleans and
  built-ins have no keys (ECMAScript 2015), and the indices of a string cannot be deleted
  (outside strict mode the attempt is ignored).
\<close>

fun delete_slots :: "(string \<Rightarrow> bool) \<Rightarrow> nat \<Rightarrow> jsval list \<Rightarrow> jsval list" where
  "delete_slots P i [] = []"
| "delete_slots P i (x # xs) =
     (if x \<noteq> JHole \<and> P (string_of_nat i) then JHole else x) # delete_slots P (i + 1) xs"

fun delete_keys :: "(string \<Rightarrow> bool) \<Rightarrow> jsval \<Rightarrow> error + jsval" where
  "delete_keys P (JObj obj) = Inr (JObj (filter (\<lambda>kv. \<not> P (fst kv)) obj))"
| "delete_keys P (JArr xs) = Inr (JArr (delete_slots P 0 xs))"
| "delete_keys P JUndefined = Inl TypeError"
| "delete_keys P JNull = Inl TypeError"
| "delete_keys P JHole = Inl TypeError"
| "delete_keys P v = Inr v"

text \<open>
  \<^verbatim>\<open>restrictObjectAttributes(restrictedFields, object)\<close>, lines 158 to 164: a key goes when
  \<^verbatim>\<open>_.indexOf(restrictedFields, e) == -1\<close>.
\<close>

definition restrictObjectAttributes :: "string list \<Rightarrow> jsval \<Rightarrow> error + jsval" where
  "restrictObjectAttributes restrictedFields object =
     delete_keys (\<lambda>e. e \<notin> set restrictedFields) object"

text \<open>\<^verbatim>\<open>values[attribute].forEach(...)\<close> of lines 150 to 152; \<^verbatim>\<open>forEach\<close> passes over holes.\<close>

fun restrict_elements :: "string list \<Rightarrow> jsval list \<Rightarrow> error + jsval list" where
  "restrict_elements restrictedFields [] = Inr []"
| "restrict_elements restrictedFields (e # es) =
     (if e = JHole then
        (case restrict_elements restrictedFields es of
           Inl err \<Rightarrow> Inl err
         | Inr es1 \<Rightarrow> Inr (e # es1))
      else
        (case restrictObjectAttributes restrictedFields e of
           Inl err \<Rightarrow> Inl err
         | Inr e1 \<Rightarrow>
             (case restrict_elements restrictedFields es of
                Inl err \<Rightarrow> Inl err
              | Inr es1 \<Rightarrow> Inr (e1 # es1))))"

text \<open>
  Lines 148 to 182 for one attribute of type \<^verbatim>\<open>json\<close>, on the value \<^verbatim>\<open>values[attribute]\<close>:
  first the restriction, then the skip list, whose loop deletes a key \<^verbatim>\<open>e\<close> when
  \<^verbatim>\<open>e == skipAttributes[i]\<close> for some \<^verbatim>\<open>i\<close>. The result is the value afterwards.
\<close>

definition restrict_value :: "attribute_def \<Rightarrow> jsval \<Rightarrow> error + jsval" where
  "restrict_value d v =
     (case (case attr_restrictAttributes d of
              None \<Rightarrow> Inr v
            | Some restrictedFields \<Rightarrow>
                if truthy v then
                  (case v of
                     JArr es \<Rightarrow>
                       (case restrict_elements restrictedFields es of
                          Inl err \<Rightarrow> Inl err
                        | Inr es1 \<Rightarrow> Inr (JArr es1))
                   | _ \<Rightarrow> restrictObjectAttributes restrictedFields v)
                else Inr v) of
        Inl err \<Rightarrow> Inl err
      | Inr v1 \<Rightarrow>
          (case attr_skipAttributes d of
             None \<Rightarrow> Inr v1
           | Some skipAttributes \<Rightarrow>
               if truthy v1 then delete_keys (\<lambda>e. e \<in> set skipAttributes) v1
               else Inr v1))"

text \<open>
  \<^verbatim>\<open>values\<close> is taken as a tree, as JSON data is: no object or array in it is held by two
  properties or slots. The deletions, which the code makes on the object that
  \<^verbatim>\<open>values[attribute]\<close> refers to, then show under that one property only, and the model writes
  the changed value back there. Values in which two properties share an object, where a
  deletion made through one shows through the other, are outside the type \<open>object\<close> and
  outside what is proved below. A value that is not an own property of \<^verbatim>\<open>values\<close> (inherited,
  or \<^verbatim>\<open>undefined\<close>) leaves \<^verbatim>\<open>values\<close> as it is.
\<close>

definition store_value :: "object \<Rightarrow> string \<Rightarrow> jsval \<Rightarrow> object" where
  "store_value values attribute v =
     (if map_of values attribute = None then values else set_prop values attribute v)"

text \<open>
  The loop \<^verbatim>\<open>Object.keys(attributes).forEach(function(attribute) { ... })\<close> that both
  definitions of \<^verbatim>\<open>restrictAttributes\<close> run (lines 144 to 184 and 903 to 928): each attribute
  whose \<^verbatim>\<open>type\<close> is \<^verbatim>\<open>'json'\<close> has its value treated by \<open>body\<close>, the attributes have distinct
  names, and an exception ends the loop.
\<close>

fun each_json_attribute ::
  "(attribute_def \<Rightarrow> jsval \<Rightarrow> error + jsval) \<Rightarrow> (string \<times> attribute_def) list \<Rightarrow> object \<Rightarrow>
   error + object" where
  "each_json_attribute body [] values = Inr values"
| "each_json_attribute body ((attribute, d) # rest) values =
     (if attr_type d = Some ''json'' then
        (case body d (get_prop values attribute) of
           Inl err \<Rightarrow> Inl err
         | Inr v \<Rightarrow> each_json_attribute body rest (store_value values attribute v))
      else each_json_attribute body rest values)"

text \<open>
  \<^verbatim>\<open>restrictAttributes(attributes, values)\<close>, lines 143 to 187. \<^verbatim>\<open>values\<close> is changed in place and
  returned: the result is that one object, as it is after the call.
  \<^verbatim>\<open>Object.keys(attributes)\<close> throws when the collection has no attributes.
\<close>

definition restrictAttributes ::
  "(string \<times> attribute_def) list option \<Rightarrow> object \<Rightarrow> error + object" where
  "restrictAttributes attributes values =
     (case attributes of
        None \<Rightarrow> Inl TypeError
      | Some attrs \<Rightarrow> each_json_attribute restrict_value attrs values)"

text \<open>
  The second \<^verbatim>\<open>restrictAttributes\<close>, lines 902 to 931. It does not test the value and does not
  look into arrays; its restriction deletes a key \<^verbatim>\<open>e\<close> when \<^verbatim>\<open>e != restrictAttributes[i]\<close> for
  some \<^verbatim>\<open>i\<close>.
\<close>

definition restrict_value2 :: "attribute_def \<Rightarrow> jsval \<Rightarrow> error + jsval" where
  "restrict_value2 d v =
     (case (case attr_restrictAttributes d of
              None \<Rightarrow> Inr v
            | Some restrictedFields \<Rightarrow> delete_keys (\<lambda>e. \<exists>r \<in> set restrictedFields. e \<noteq> r) v) of
        Inl err \<Rightarrow> Inl err
      | Inr v1 \<Rightarrow>
          (case attr_skipAttributes d of
             None \<Rightarrow> Inr v1
           | Some skipAttributes \<Rightarrow> delete_keys (\<lambda>e. e \<in> set skipAttributes) v1))"

definition restrictAttributes2 ::
  "(string \<times> attribute_def) list option \<Rightarrow> object \<Rightarrow> error + object" where
  "restrictAttributes2 attributes values =
     (case attributes of
        None \<Rightarrow> Inl TypeError
      | Some attrs \<Rightarrow> each_json_attribute restrict_value2 attrs values)"

section \<open>Reading restricted values\<close>

text \<open>
  The words of the specification about sub-keys: the properties of an object whose keys are
  in a list, and those whose keys are not. A value has a \<^verbatim>\<open>null\<close> element when it is an array
  that holds \<^verbatim>\<open>null\<close> or \<^verbatim>\<open>undefined\<close>.
\<close>

definition keep_keys :: "string list \<Rightarrow> object \<Rightarrow> object" where
  "keep_keys ks obj = filter (\<lambda>kv. fst kv \<in> set ks) obj"

definition drop_keys :: "string list \<Rightarrow> object \<Rightarrow> object" where
  "drop_keys ks obj = filter (\<lambda>kv. fst kv \<notin> set ks) obj"

fun has_null_element :: "jsval \<Rightarrow> bool" where
  "has_null_element (JArr es) = (JNull \<in> set es \<or> JUndefined \<in> set es)"
| "has_null_element v = False"

section \<open>\<^verbatim>\<open>update\<close> and \<^verbatim>\<open>destroy\<close>\<close>

text \<open>\<^verbatim>\<open>v == undefined\<close>: true of \<^verbatim>\<open>undefined\<close> and of \<^verbatim>\<open>null\<close>.\<close>

definition eq_undefined :: "jsval \<Rightarrow> bool" where
  "eq_undefined v = (v = JUndefined \<or> v = JNull)"

text \<open>
  \<^verbatim>\<open>update\<close>, lines 636 to 680. The helpers and \<^verbatim>\<open>restrictAttributes\<close> run first; then
  \<^verbatim>\<open>options.where[primaryKeyField]\<close> is read, which throws when \<^verbatim>\<open>where\<close> is \<^verbatim>\<open>undefined\<close> or
  \<^verbatim>\<open>null\<close>; a primary key field that is \<^verbatim>\<open>undefined\<close> reads the property named \<open>undefined\<close>.
\<close>

definition update ::
  "es_client connections \<Rightarrow> string \<Rightarrow> string \<Rightarrow> criteria \<Rightarrow> object \<Rightarrow> string option \<Rightarrow>
   calls \<times> jsval outcome" where
  "update connections connectionName collectionName options values index =
     (case targets connections connectionName collectionName index of
        Inl e \<Rightarrow> ([], Threw e)
      | Inr (client, indexName, typeName) \<Rightarrow>
     (case getPrimaryKeyField connections connectionName collectionName of
        Inl e \<Rightarrow> ([], Threw e)
      | Inr primaryKeyField \<Rightarrow>
     (case getAttributes connections connectionName collectionName of
        Inl e \<Rightarrow> ([], Threw e)
      | Inr attributes \<Rightarrow>
     (case restrictAttributes attributes values of
        Inl e \<Rightarrow> ([], Threw e)
      | Inr restrictedValues \<Rightarrow>
     (case crit_where options of
        None \<Rightarrow> ([], Threw TypeError)
      | Some w \<Rightarrow>
          let pk = get_prop w (case primaryKeyField of None \<Rightarrow> ''undefined'' | Some f \<Rightarrow> f) in
          if eq_undefined pk then
            ([], CbErr (Error ''You must specify the primary key of the record you wish to delete.''))
          else
            let request = \<lparr>req_index = indexName, req_type = typeName, req_id = pk,
                           req_body = JObj [(''doc'', JObj restrictedValues)]\<rparr>
            in (case client_update client request of
                  Inl err \<Rightarrow> ([(Update, request)], CbErr err)
                | Inr res \<Rightarrow>
                    let request2 = \<lparr>req_index = indexName, req_type = typeName,
                                    req_id = hit_id res, req_body = JUndefined\<rparr>
                    in (case client_get client request2 of
                          Inl err \<Rightarrow> ([(Update, request), (Get, request2)], CbErr err)
                        | Inr res2 \<Rightarrow>
                            ([(Update, request), (Get, request2)], CbOk (hitToModel res2)))))))))"

text \<open>
  \<^verbatim>\<open>destroy\<close>, lines 682 to 707 (and, word for word, 1253 to 1278): the identifier is read
  from the property \<^verbatim>\<open>primaryKey\<close> of \<^verbatim>\<open>where\<close>. On success the callback gets no argument.
\<close>

definition destroy ::
  "es_client connections \<Rightarrow> string \<Rightarrow> string \<Rightarrow> criteria \<Rightarrow> string option \<Rightarrow>
   calls \<times> unit outcome" where
  "destroy connections connectionName collectionName options index =
     (case targets connections connectionName collectionName index of
        Inl e \<Rightarrow> ([], Threw e)
      | Inr (client, indexName, typeName) \<Rightarrow>
     (case crit_where options of
        None \<Rightarrow> ([], Threw TypeError)
      | Some w \<Rightarrow>
          let pk = get_prop w ''primaryKey'' in
          if eq_undefined pk then
            ([], CbErr (Error ''You must specify the primary key of the record you wish to delete.''))
          else
            let request = \<lparr>req_index = indexName, req_type = typeName, req_id = pk,
                           req_body = JUndefined\<rparr>
            in (case client_delete client request of
                  Inl err \<Rightarrow> ([(Delete, request)], CbErr err)
                | Inr res \<Rightarrow> ([(Delete, request)], CbOk ()))))"

text \<open>The second \<^verbatim>\<open>find\<close>, lines 1100 to 1168: the second body and the second \<^verbatim>\<open>getHits\<close>.\<close>

definition find_records2 ::
  "es_client connections \<Rightarrow> string \<Rightarrow> string \<Rightarrow> criteria \<Rightarrow> string option \<Rightarrow>
   calls \<times> jsval list outcome" where
  "find_records2 connections connectionName collectionName options index =
     (case targets connections connectionName collectionName index of
        Inl e \<Rightarrow> ([], Threw e)
      | Inr (client, indexName, typeName) \<Rightarrow>
          let request = \<lparr>req_index = indexName, req_type = typeName, req_id = JUndefined,
                         req_body = find_body2 options\<rparr>
          in (case client_search client request of
                Inl err \<Rightarrow> ([(Search, request)], CbErr err)
              | Inr res \<Rightarrow> ([(Search, request)], getHits2 res)))"

section \<open>Concrete inputs\<close>

text \<open>A connection named \<open>es\<close> without a configured index, and the registry that holds it once
  it has been registered with the client handle \<open>7\<close>.\<close>

definition es_config :: connection_config where
  "es_config = \<lparr>cfg_identity = Some ''es'', cfg_index = None\<rparr>"

definition es_registered :: "nat connections" where
  "es_registered = [''es'' \<mapsto> \<lparr>reg_config = es_config, reg_collections = Map.empty,
      reg_connection = Some \<lparr>conn_config = es_config, conn_connection = 7\<rparr>\<rparr>]"

text \<open>Criteria: a three-part field path; a path that starts with a dot; a list value and a scalar
  value; no \<^verbatim>\<open>where\<close> at all.\<close>

definition crit_abc :: criteria where
  "crit_abc = \<lparr>crit_where = Some [(''a.b.c'', JNum 1)], crit_skip = None, crit_limit = None,
     crit_sort = None\<rparr>"

definition crit_leading_dot :: criteria where
  "crit_leading_dot = \<lparr>crit_where = Some [(''.b.c'', JNum 1)], crit_skip = None,
     crit_limit = None, crit_sort = None\<rparr>"


definition crit_all :: criteria where
  "crit_all = \<lparr>crit_where = None, crit_skip = Some 10, crit_limit = Some 5, crit_sort = None\<rparr>"

text \<open>A client whose index holds one document, with identifier 2; the registry with a
  collection \<open>item\<close> on it; a search response without hits.\<close>

definition kettle_docs :: "es_hit list" where
  "kettle_docs =
     [\<lparr>hit_id = JStr ''1'', hit_found = False, hit_source = []\<rparr>,
      \<lparr>hit_id = JStr ''2'', hit_found = True, hit_source = [(''name'', JStr ''kettle'')]\<rparr>,
      \<lparr>hit_id = JStr ''3'', hit_found = False, hit_source = []\<rparr>]"

definition kettle_client :: es_client where
  "kettle_client =
     \<lparr>client_search = (\<lambda>r. Inr \<lparr>resp_total = 0, resp_hits = []\<rparr>),
      client_get = (\<lambda>r. Inl (ClientError ''Not Found'')),
      client_update = (\<lambda>r. Inl (ClientError ''Not Found'')),
      client_delete = (\<lambda>r. Inl (ClientError ''Not Found'')),
      client_mget = (\<lambda>r. Inr kettle_docs)\<rparr>"

definition item_collection :: collection where
  "item_collection =
     \<lparr>coll_adapter = Some (Some ''item''), coll_primaryKey = Some ''id'',
      coll_attributes = Some []\<rparr>"

definition kettle_connections :: "es_client connections" where
  "kettle_connections =
     [''es'' \<mapsto> \<lparr>reg_config = es_config, reg_collections = [''item'' \<mapsto> item_collection],
        reg_connection = Some \<lparr>conn_config = es_config, conn_connection = kettle_client\<rparr>\<rparr>]"

definition no_hits :: search_response where
  "no_hits = \<lparr>resp_total = 0, resp_hits = []\<rparr>"

text \<open>An attribute \<open>meta\<close> of type \<^verbatim>\<open>json\<close> restricted to \<open>x\<close>, and one restricted to \<open>x\<close> and \<open>y\<close>;
  values with an object and with a list of objects under \<open>meta\<close>, and values whose \<open>meta\<close>
  holds \<open>x\<close>, \<open>y\<close> and \<open>z\<close>.\<close>

definition meta_x :: "(string \<times> attribute_def) list" where
  "meta_x = [(''meta'', \<lparr>attr_type = Some ''json'', attr_restrictAttributes = Some [''x''],
     attr_skipAttributes = None\<rparr>)]"

definition meta_xy :: "(string \<times> attribute_def) list" where
  "meta_xy = [(''meta'', \<lparr>attr_type = Some ''json'', attr_restrictAttributes = Some [''x'', ''y''],
     attr_skipAttributes = None\<rparr>)]"

definition values_object :: object where
  "values_object = [(''name'', JStr ''kettle''), (''meta'', JObj [(''x'', JNum 1), (''y'', JNum 2)])]"

definition values_list :: object where
  "values_list = [(''meta'', JArr [JObj [(''x'', JNum 1), (''y'', JNum 2)]])]"

definition values_xyz :: object where
  "values_xyz = [(''name'', JStr ''kettle''),
     (''meta'', JObj [(''x'', JNum 1), (''y'', JNum 2), (''z'', JNum 3)])]"

text \<open>The same registry when the connection \<open>es\<close> is configured with the index \<open>shop\<close>.\<close>

definition shop_config :: connection_config where
  "shop_config = \<lparr>cfg_identity = Some ''es'', cfg_index = Some ''shop''\<rparr>"

definition shop_connections :: "es_client connections" where
  "shop_connections =
     [''es'' \<mapsto> \<lparr>reg_config = shop_config, reg_collections = [''item'' \<mapsto> item_collection],
        reg_connection = Some \<lparr>conn_config = shop_config, conn_connection = kettle_client\<rparr>\<rparr>]"

section \<open>Properties of the connection registry\<close>

text \<open>\<^verbatim>\<open>connect\<close> always passes a null error to its callback, so the branch
  \<^verbatim>\<open>if(err) return cb(err)\<close> of the \<^verbatim>\<open>Connection\<close> constructor is never taken.\<close>

lemma Connection_never_CbErr: "Connection new_Client config \<noteq> CbErr err"
  by (simp add: Connection_def connect_def split: sum.splits)

text \<open>
  Claim C5. \<^verbatim>\<open>registerConnection\<close> calls back with an error at once, leaving the registry as it
  was, when the identity is missing (absent or empty) and when the identity is already
  registered. After a successful registration the entry holds the configuration, the
  collections and the connection, and a second call with the same identity fails as already
  registered and leaves the registry, hence that entry, unchanged.
\<close>

theorem registerConnection_rejects:
  "((cfg_identity connection = None \<or> cfg_identity connection = Some []) \<longrightarrow>
      registerConnection new_Client connections connection collections =
        (connections, CbErr (Error ''Connection is missing an identity.''))) \<and>
   (cfg_identity connection = Some ident \<and> ident \<noteq> [] \<and> connections ident = Some reg \<longrightarrow>
      registerConnection new_Client connections connection collections =
        (connections, CbErr (Error ''Connection is already registered.''))) \<and>
   (registerConnection new_Client connections connection collections = (connections1, CbOk conn) \<and>
    cfg_identity connection = Some ident \<and> cfg_identity connection2 = Some ident \<longrightarrow>
      connections1 ident =
        Some \<lparr>reg_config = connection,
              reg_collections = (case collections of None \<Rightarrow> Map.empty | Some c \<Rightarrow> c),
              reg_connection = Some conn\<rparr> \<and>
      registerConnection new_Client2 connections1 connection2 collections2 =
        (connections1, CbErr (Error ''Connection is already registered.'')))"
  by (auto simp: registerConnection_def connections_truthy_def Let_def Connection_def connect_def
      split: option.splits sum.splits if_splits prod.splits)

text \<open>A connection without identity is refused; \<open>es\<close> is registered; registering \<open>es\<close> again,
  with another configuration, collections and client, is refused and changes nothing.\<close>

theorem registerConnection_rejects_witness:
  "registerConnection (\<lambda>c. Inr (7::nat)) Map.empty \<lparr>cfg_identity = None, cfg_index = None\<rparr> None =
     (Map.empty, CbErr (Error ''Connection is missing an identity.'')) \<and>
   registerConnection (\<lambda>c. Inr (7::nat)) Map.empty es_config None =
     (es_registered, CbOk \<lparr>conn_config = es_config, conn_connection = 7\<rparr>) \<and>
   es_registered ''es'' = Some \<lparr>reg_config = es_config, reg_collections = Map.empty,
      reg_connection = Some \<lparr>conn_config = es_config, conn_connection = 7\<rparr>\<rparr> \<and>
   registerConnection (\<lambda>c. Inr (8::nat)) es_registered (es_config\<lparr>cfg_index := Some ''other''\<rparr>)
       (Some Map.empty) =
     (es_registered, CbErr (Error ''Connection is already registered.''))"
proof -
  have missing: "cfg_identity \<lparr>cfg_identity = None, cfg_index = None\<rparr> = None"
    by simp
  have first: "registerConnection (\<lambda>c. Inr (7::nat)) Map.empty es_config None =
        (es_registered, CbOk \<lparr>conn_config = es_config, conn_connection = 7\<rparr>)"
    by (simp add: registerConnection_def connections_truthy_def Object_prototype_names_def
        Connection_def connect_def es_config_def es_registered_def)
  have ids: "cfg_identity es_config = Some ''es''"
    "cfg_identity (es_config\<lparr>cfg_index := Some ''other''\<rparr>) = Some ''es''"
    by (simp_all add: es_config_def)
  have entry: "es_registered ''es'' = Some \<lparr>reg_config = es_config, reg_collections = Map.empty,
      reg_connection = Some \<lparr>conn_config = es_config, conn_connection = 7\<rparr>\<rparr>"
    by (simp add: es_registered_def)
  from registerConnection_rejects
    [of "\<lparr>cfg_identity = None, cfg_index = None\<rparr>" "\<lambda>c. Inr (7::nat)" Map.empty None]
    missing
  have a: "registerConnection (\<lambda>c. Inr (7::nat)) Map.empty \<lparr>cfg_identity = None, cfg_index = None\<rparr> None =
     (Map.empty, CbErr (Error ''Connection is missing an identity.''))"
    by blast
  from registerConnection_rejects
    [of es_config "\<lambda>c. Inr (7::nat)" Map.empty None "''es''" _ es_registered
        "\<lparr>conn_config = es_config, conn_connection = 7\<rparr>"
        "es_config\<lparr>cfg_index := Some ''other''\<rparr>" "\<lambda>c. Inr (8::nat)" "Some Map.empty"]
    first ids
  have b: "registerConnection (\<lambda>c. Inr (8::nat)) es_registered (es_config\<lparr>cfg_index := Some ''other''\<rparr>)
       (Some Map.empty) =
     (es_registered, CbErr (Error ''Connection is already registered.''))"
    by blast
  from a first entry b show ?thesis by blast
qed

text \<open>
  Claim C10, as amended. Opening the client handle fails only when the client library's
  constructor throws. Then the exception leaves \<^verbatim>\<open>registerConnection\<close> (the callback is not
  invoked), the registry entry stored before the attempt stays, with no connection in it, and
  a later \<^verbatim>\<open>registerConnection\<close> with the same identity fails as already registered.
\<close>

theorem registerConnection_failed_open:
  "cfg_identity connection = Some ident \<and> ident \<noteq> [] \<and> \<not> connections_truthy connections ident \<and>
   new_Client connection = Inl e \<longrightarrow>
     registerConnection new_Client connections connection collections =
       (connections(ident \<mapsto>
          \<lparr>reg_config = connection,
           reg_collections = (case collections of None \<Rightarrow> Map.empty | Some c \<Rightarrow> c),
           reg_connection = None\<rparr>), Threw e) \<and>
     (cfg_identity connection2 = Some ident \<longrightarrow>
        registerConnection new_Client2
          (fst (registerConnection new_Client connections connection collections))
          connection2 collections2 =
        (fst (registerConnection new_Client connections connection collections),
         CbErr (Error ''Connection is already registered.'')))"
  by (auto simp: registerConnection_def connections_truthy_def Let_def Connection_def connect_def
      split: option.splits sum.splits if_splits prod.splits)

text \<open>Registering \<open>es\<close> with a constructor that throws, then registering \<open>es\<close> again.\<close>

theorem registerConnection_failed_open_witness:
  "registerConnection (\<lambda>c. Inl (ClientError ''no living connections'')) (Map.empty :: nat connections)
       es_config None =
     ([''es'' \<mapsto> \<lparr>reg_config = es_config, reg_collections = Map.empty, reg_connection = None\<rparr>],
      Threw (ClientError ''no living connections'')) \<and>
   registerConnection (\<lambda>c. Inr 7)
       (fst (registerConnection (\<lambda>c. Inl (ClientError ''no living connections''))
          (Map.empty :: nat connections) es_config None))
       es_config None =
     (fst (registerConnection (\<lambda>c. Inl (ClientError ''no living connections''))
          (Map.empty :: nat connections) es_config None),
      CbErr (Error ''Connection is already registered.''))"
proof -
  have h: "cfg_identity es_config = Some ''es'' \<and> ''es'' \<noteq> [] \<and>
      \<not> connections_truthy (Map.empty :: nat connections) ''es'' \<and>
      (\<lambda>c. Inl (ClientError ''no living connections'') :: error + nat) es_config =
        Inl (ClientError ''no living connections'')"
    by (simp add: es_config_def connections_truthy_def Object_prototype_names_def)
  have c: "(case (None :: (string \<rightharpoonup> collection) option) of None \<Rightarrow> Map.empty | Some c \<Rightarrow> c) = Map.empty"
    by simp
  from registerConnection_failed_open
    [of es_config "''es''" Map.empty "\<lambda>c. Inl (ClientError ''no living connections'')"
        "ClientError ''no living connections''" None es_config "\<lambda>c. Inr 7" None] h
  show ?thesis unfolding c by blast
qed

text \<open>
  Claim C10 as stated says that the callback receives the error. With a constructor that
  throws, the outcome is the exception, not an error given to the callback.
\<close>

theorem registerConnection_failed_open_counterexample:
  "snd (registerConnection (\<lambda>c. Inl (ClientError ''no living connections''))
         (Map.empty :: nat connections) es_config None) =
     Threw (ClientError ''no living connections'') \<and>
   snd (registerConnection (\<lambda>c. Inl (ClientError ''no living connections''))
         (Map.empty :: nat connections) es_config None) \<noteq>
     CbErr (ClientError ''no living connections'')"
  by (simp add: registerConnection_def connections_truthy_def Object_prototype_names_def
        Connection_def connect_def es_config_def)

section \<open>Properties of the query translator\<close>

lemma split_dot_not_Nil: "split_dot s \<noteq> []"
  by (induction s) (auto split: list.splits)

lemma join_dot_snoc: "pre \<noteq> [] \<Longrightarrow> join_dot (pre @ [v]) = join_dot pre @ ''.'' @ v"
  by (induction pre rule: join_dot.induct) auto

lemma join_dot_nonempty: "pre \<noteq> [] \<Longrightarrow> hd pre \<noteq> [] \<Longrightarrow> join_dot pre \<noteq> []"
  by (induction pre rule: join_dot.induct) auto

lemma nested_paths_wrap:
  "nested_paths (wrap_nested ps (JObj [(''bool'', JObj [(''filter'', t)])])) = ps"
  by (induction ps) auto

lemma terminal_clause_wrap:
  "terminal_clause (wrap_nested ps (JObj [(''bool'', JObj [(''filter'', t)])])) = t"
  by (induction ps) auto

lemma terminal_clause_smart:
  "terminal_clause (smartTermOrTermsQuery field v) = smartTermOrTermsQuery field v"
  by (simp add: smartTermOrTermsQuery_def)

text \<open>The reduction, started inside a path whose prefix \<open>pre\<close> has a non-empty first part.\<close>

lemma nested_reduce_from_prefix:
  "pre \<noteq> [] \<Longrightarrow> hd pre \<noteq> [] \<Longrightarrow> vs \<noteq> [] \<Longrightarrow> key + length vs + 1 = cnt \<Longrightarrow>
   nested_reduce cnt key (join_dot pre) vs tf =
     Inr (wrap_nested (map (\<lambda>k. join_dot (pre @ take k vs)) [1..<length vs + 1])
            (JObj [(''bool'', JObj [(''filter'', tf)])]))"
proof (induction vs arbitrary: pre key)
  case Nil
  then show ?case by simp
next
  case (Cons v vs)
  have ne: "join_dot pre \<noteq> []"
    using Cons.prems by (simp add: join_dot_nonempty)
  have path: "join_dot pre @ ''.'' @ v = join_dot (pre @ [v])"
    using Cons.prems by (simp add: join_dot_snoc)
  show ?case
  proof (cases "vs = []")
    case True
    with Cons.prems ne path show ?thesis by (simp add: Let_def)
  next
    case False
    have idx: "map (\<lambda>k. join_dot (pre @ take k (v # vs))) [1..<length (v # vs) + 1] =
        join_dot (pre @ [v]) # map (\<lambda>k. join_dot ((pre @ [v]) @ take k vs)) [1..<length vs + 1]"
    proof -
      have "[1..<length (v # vs) + 1] = 1 # map Suc [1..<length vs + 1]"
        by (simp add: upt_conv_Cons map_Suc_upt del: upt_Suc)
      then show ?thesis by (simp add: comp_def del: upt_Suc)
    qed
    have ih: "nested_reduce cnt (key + 1) (join_dot (pre @ [v])) vs tf =
        Inr (wrap_nested (map (\<lambda>k. join_dot ((pre @ [v]) @ take k vs)) [1..<length vs + 1])
               (JObj [(''bool'', JObj [(''filter'', tf)])]))"
      using Cons.prems False by (intro Cons.IH) auto
    have lt: "int key < int cnt - 2"
      using Cons.prems False by (cases vs) auto
    show ?thesis
      unfolding idx using ne path ih lt by (simp add: Let_def del: upt_Suc)
  qed
qed

lemma nested_reduce_total:
  "key + length vs + 1 = cnt \<Longrightarrow> \<exists>q. nested_reduce cnt key p vs tf = Inr q \<and> terminal_clause q = tf
      \<or> (vs = [] \<and> nested_reduce cnt key p vs tf = Inr (JObj []))"
proof (induction vs arbitrary: key p)
  case Nil
  then show ?case by simp
next
  case (Cons v vs)
  show ?case
  proof (cases "vs = []")
    case True
    with Cons.prems show ?thesis by (simp add: Let_def)
  next
    case False
    have lt: "int key < int cnt - 2"
      using Cons.prems False by (cases vs) auto
    from Cons.IH [of "key + 1" "if p \<noteq> [] then p @ ''.'' @ v else v"] Cons.prems False
    obtain q where "nested_reduce cnt (key + 1) (if p \<noteq> [] then p @ ''.'' @ v else v) vs tf = Inr q"
      "terminal_clause q = tf" by auto
    with lt show ?thesis by (simp add: Let_def)
  qed
qed

lemma cumulative_prefixes_Cons:
  "rest \<noteq> [] \<Longrightarrow>
   cumulative_prefixes (p0 # rest) =
     p0 # map (\<lambda>k. join_dot ([p0] @ take k (butlast rest))) [1..<length (butlast rest) + 1]"
proof -
  assume ne: "rest \<noteq> []"
  have l: "Suc (length rest - Suc 0) = length rest"
    using ne by (cases rest) auto
  have "[1..<length (p0 # rest)] = 1 # map Suc [1..<length rest]"
    using ne by (cases rest) (simp_all add: upt_conv_Cons map_Suc_upt del: upt_Suc)
  then have "cumulative_prefixes (p0 # rest) =
      p0 # map (\<lambda>k. join_dot (p0 # take k rest)) [1..<length rest]"
    by (simp add: cumulative_prefixes_def comp_def del: upt_Suc)
  moreover have "map (\<lambda>k. join_dot (p0 # take k rest)) [1..<length rest] =
      map (\<lambda>k. join_dot ([p0] @ take k (butlast rest))) [1..<length rest]"
    by (rule map_cong) (auto simp: take_butlast)
  ultimately show ?thesis by (simp add: l del: upt_Suc)
qed

lemma length_cumulative_prefixes: "length (cumulative_prefixes parts) = length parts - 1"
  by (simp add: cumulative_prefixes_def)

lemma field_filter_nested:
  assumes "split_dot field = parts" and "2 \<le> length parts"
    and "hd parts \<noteq> [] \<or> length parts = 2"
  shows "field_filter field v =
      Inr (wrap_nested (cumulative_prefixes parts)
             (JObj [(''bool'', JObj [(''filter'', smartTermOrTermsQuery field v)])]))"
proof -
  from assms(2) obtain p0 rest where parts: "parts = p0 # rest" and ne: "rest \<noteq> []"
    by (cases parts) (auto simp: Suc_le_eq)
  have bl: "butlast parts = p0 # butlast rest"
    using parts ne by simp
  have cnt: "length parts \<noteq> 1"
    using assms(2) by simp
  show ?thesis
  proof (cases "butlast rest = []")
    case True
    then have two: "length parts = 2"
      using parts ne by (cases rest) (auto split: if_splits)
    have "cumulative_prefixes parts = [p0]"
      using cumulative_prefixes_Cons [OF ne, of p0] True parts by simp
    then show ?thesis
      using assms(1) bl True two by (simp add: field_filter_def Let_def)
  next
    case False
    then have more: "length parts \<noteq> 2" "int 0 < int (length parts) - 2"
      using parts ne by (cases rest; auto split: if_splits)+
    with assms(3) parts have p0: "p0 \<noteq> []"
      by simp
    have "nested_reduce (length parts) (0 + 1) (join_dot [p0]) (butlast rest)
            (smartTermOrTermsQuery field v) =
        Inr (wrap_nested (map (\<lambda>k. join_dot ([p0] @ take k (butlast rest)))
                            [1..<length (butlast rest) + 1])
               (JObj [(''bool'', JObj [(''filter'', smartTermOrTermsQuery field v)])]))"
      using False p0 parts ne by (intro nested_reduce_from_prefix) auto
    then show ?thesis
      using assms(1) bl cnt more cumulative_prefixes_Cons [OF ne, of p0] parts
      by (simp add: field_filter_def Let_def del: upt_Suc)
  qed
qed

lemma field_filter_total:
  "\<exists>q. field_filter field v = Inr q \<and> terminal_clause q = smartTermOrTermsQuery field v"
proof (cases "length (split_dot field) = 1")
  case True
  then show ?thesis by (simp add: field_filter_def terminal_clause_smart)
next
  case False
  then have len: "2 \<le> length (split_dot field)"
    using split_dot_not_Nil [of field] by (cases "split_dot field") (auto simp: Suc_le_eq)
  then have ne: "butlast (split_dot field) \<noteq> []"
    by (cases "split_dot field" rule: rev_cases) auto
  have "0 + length (butlast (split_dot field)) + 1 = length (split_dot field)"
    using len by simp
  from nested_reduce_total [OF this, of "[]" "smartTermOrTermsQuery field v"] ne False
  show ?thesis by (simp add: field_filter_def Let_def)
qed

lemma push_filters_all:
  "\<exists>fl. push_filters w fs acc = Inr (acc @ fl) \<and> length fl = length fs \<and>
     (\<forall>i<length fs. field_filter (fs ! i) (get_prop w (fs ! i)) = Inr (fl ! i))"
proof (induction fs arbitrary: acc)
  case Nil
  show ?case by simp
next
  case (Cons f fs)
  obtain q where q: "field_filter f (get_prop w f) = Inr q"
    using field_filter_total by blast
  from Cons.IH [of "acc @ [q]"] obtain fl where
    fl: "push_filters w fs (acc @ [q]) = Inr ((acc @ [q]) @ fl)" "length fl = length fs"
      "\<forall>i<length fs. field_filter (fs ! i) (get_prop w (fs ! i)) = Inr (fl ! i)"
    by blast
  have "push_filters w (f # fs) acc = Inr (acc @ (q # fl))"
    using q fl(1) by simp
  moreover have "length (q # fl) = length (f # fs)"
    using fl(2) by simp
  moreover have "\<forall>i<length (f # fs). field_filter ((f # fs) ! i) (get_prop w ((f # fs) ! i)) =
      Inr ((q # fl) ! i)"
    using q fl(3) by (auto simp: nth_Cons split: nat.splits)
  ultimately show ?case by blast
qed

lemma find_query_filters:
  assumes "crit_where options = Some w"
  shows "\<exists>filters. find_query options = Inr (JObj [(''bool'', JObj [(''filter'', JArr filters)])]) \<and>
     length filters = length w \<and>
     (\<forall>i<length w. field_filter (fst (w ! i)) (get_prop w (fst (w ! i))) = Inr (filters ! i))"
proof -
  from push_filters_all [of w "map fst w" "[]"] obtain fl where
    fl: "push_filters w (map fst w) [] = Inr fl" "length fl = length w"
      "\<forall>i<length w. field_filter (map fst w ! i) (get_prop w (map fst w ! i)) = Inr (fl ! i)"
    by auto
  have "find_query options = Inr (JObj [(''bool'', JObj [(''filter'', JArr fl)])])"
    using assms fl(1) by (simp add: find_query_def)
  with fl(2,3) show ?thesis by auto
qed

text \<open>
  Claim C1, as amended. For a field of \<^verbatim>\<open>where\<close> whose dotted path has \<open>n \<ge> 2\<close> parts, the
  first of them not empty (or with \<open>n = 2\<close>), the filter that \<^verbatim>\<open>find\<close> pushes is the term or
  terms clause on the full field name, under \<^verbatim>\<open>bool\<close>/\<^verbatim>\<open>filter\<close>, wrapped in exactly \<open>n - 1\<close>
  \<^verbatim>\<open>nested\<close> clauses whose paths are the dot-joined prefixes of the field path, the shortest
  outermost.
\<close>

theorem find_nested_paths:
  "crit_where options = Some w \<and> i < length w \<and> fst (w ! i) = field \<and>
   split_dot field = parts \<and> 2 \<le> length parts \<and> (hd parts \<noteq> [] \<or> length parts = 2) \<longrightarrow>
   (\<exists>filters.
      find_query options = Inr (JObj [(''bool'', JObj [(''filter'', JArr filters)])]) \<and>
      length filters = length w \<and>
      filters ! i = wrap_nested (cumulative_prefixes parts)
        (JObj [(''bool'', JObj [(''filter'', smartTermOrTermsQuery field (get_prop w field))])]) \<and>
      nested_paths (filters ! i) = cumulative_prefixes parts \<and>
      length (nested_paths (filters ! i)) = length parts - 1 \<and>
      terminal_clause (filters ! i) = smartTermOrTermsQuery field (get_prop w field))"
proof (intro impI, elim conjE)
  assume w: "crit_where options = Some w" and i: "i < length w" and f: "fst (w ! i) = field"
    and parts: "split_dot field = parts" "2 \<le> length parts" "hd parts \<noteq> [] \<or> length parts = 2"
  from find_query_filters [OF w] obtain filters where
    q: "find_query options = Inr (JObj [(''bool'', JObj [(''filter'', JArr filters)])])"
    and len: "length filters = length w"
    and each: "\<forall>i<length w. field_filter (fst (w ! i)) (get_prop w (fst (w ! i))) = Inr (filters ! i)"
    by blast
  from each i f have "field_filter field (get_prop w field) = Inr (filters ! i)"
    by auto
  with field_filter_nested [OF parts, of "get_prop w field"]
  have shape: "filters ! i = wrap_nested (cumulative_prefixes parts)
        (JObj [(''bool'', JObj [(''filter'', smartTermOrTermsQuery field (get_prop w field))])])"
    by simp
  show "\<exists>filters.
      find_query options = Inr (JObj [(''bool'', JObj [(''filter'', JArr filters)])]) \<and>
      length filters = length w \<and>
      filters ! i = wrap_nested (cumulative_prefixes parts)
        (JObj [(''bool'', JObj [(''filter'', smartTermOrTermsQuery field (get_prop w field))])]) \<and>
      nested_paths (filters ! i) = cumulative_prefixes parts \<and>
      length (nested_paths (filters ! i)) = length parts - 1 \<and>
      terminal_clause (filters ! i) = smartTermOrTermsQuery field (get_prop w field)"
    using q len shape
    by (intro exI [of _ filters])
       (simp add: nested_paths_wrap terminal_clause_wrap length_cumulative_prefixes)
qed

text \<open>The path \<open>a.b.c\<close>: nested under \<open>a\<close>, then under \<open>a.b\<close>.\<close>

theorem find_nested_paths_witness:
  "\<exists>filters.
      find_query crit_abc = Inr (JObj [(''bool'', JObj [(''filter'', JArr filters)])]) \<and>
      length filters = 1 \<and>
      filters ! 0 = wrap_nested [''a'', ''a.b'']
        (JObj [(''bool'', JObj [(''filter'', JObj [(''term'', JObj [(''a.b.c'', JNum 1)])])])]) \<and>
      nested_paths (filters ! 0) = [''a'', ''a.b''] \<and>
      length (nested_paths (filters ! 0)) = 2 \<and>
      terminal_clause (filters ! 0) = JObj [(''term'', JObj [(''a.b.c'', JNum 1)])]"
proof -
  have h: "crit_where crit_abc = Some [(''a.b.c'', JNum 1)] \<and> 0 < length [(''a.b.c'', JNum 1)] \<and>
      fst ([(''a.b.c'', JNum 1)] ! 0) = ''a.b.c'' \<and> split_dot ''a.b.c'' = [''a'', ''b'', ''c''] \<and>
      2 \<le> length [''a'', ''b'', ''c''] \<and> (hd [''a'', ''b'', ''c''] \<noteq> [] \<or> length [''a'', ''b'', ''c''] = 2)"
    by (simp add: crit_abc_def)
  have p: "cumulative_prefixes [''a'', ''b'', ''c''] = [''a'', ''a.b'']"
    by (simp add: cumulative_prefixes_def upt_conv_Cons)
  have t: "smartTermOrTermsQuery ''a.b.c'' (get_prop [(''a.b.c'', JNum 1)] ''a.b.c'') =
      JObj [(''term'', JObj [(''a.b.c'', JNum 1)])]"
    by (simp add: smartTermOrTermsQuery_def get_prop_def)
  from find_nested_paths [of crit_abc "[(''a.b.c'', JNum 1)]" 0 "''a.b.c''" "[''a'', ''b'', ''c'']"] h
  show ?thesis unfolding p t by auto
qed

text \<open>
  Claim C1 as stated covers every dotted path. For \<open>.b.c\<close>, whose first part is empty, the
  inner path is \<open>b\<close>, while the dot-joined prefix is \<open>.b\<close>: the test \<^verbatim>\<open>result[0] ? ... : value\<close>
  takes the empty path built so far for no path at all.
\<close>

theorem find_nested_paths_counterexample:
  "find_query crit_leading_dot =
     Inr (JObj [(''bool'', JObj [(''filter'', JArr [wrap_nested ['''', ''b'']
        (JObj [(''bool'', JObj [(''filter'', JObj [(''term'', JObj [(''.b.c'', JNum 1)])])])])])])]) \<and>
   nested_paths (wrap_nested ['''', ''b'']
        (JObj [(''bool'', JObj [(''filter'', JObj [(''term'', JObj [(''.b.c'', JNum 1)])])])])) =
     ['''', ''b''] \<and>
   cumulative_prefixes (split_dot ''.b.c'') = ['''', ''.b'']"
  by (simp add: crit_leading_dot_def find_query_def field_filter_def smartTermOrTermsQuery_def
        get_prop_def cumulative_prefixes_def upt_conv_Cons Let_def)


text \<open>
  Claim C7, as amended. Without \<^verbatim>\<open>where\<close>, the first \<^verbatim>\<open>find\<close> sends the query \<^verbatim>\<open>{match_all: {}}\<close>
  and no \<^verbatim>\<open>bool\<close> clause; the second \<^verbatim>\<open>find\<close> sends a \<^verbatim>\<open>bool\<close> query whose filter list is empty.
\<close>

theorem find_no_where:
  "crit_where options = None \<longrightarrow>
     find_query options = Inr (JObj [(''match_all'', JObj [])]) \<and>
     find_body options =
       Inr (JObj ((''query'', JObj [(''match_all'', JObj [])]) # page_and_sort options)) \<and>
     find_body2 options = JObj [(''query'', JObj [(''bool'', JObj [(''filter'', JArr [])])])]"
  by (simp add: find_query_def find_body_def find_body2_def)

text \<open>Criteria with a window and no \<^verbatim>\<open>where\<close>.\<close>

theorem find_no_where_witness:
  "find_query crit_all = Inr (JObj [(''match_all'', JObj [])]) \<and>
   find_body crit_all =
     Inr (JObj [(''query'', JObj [(''match_all'', JObj [])]), (''from'', JNum 10), (''size'', JNum 5)]) \<and>
   find_body2 crit_all = JObj [(''query'', JObj [(''bool'', JObj [(''filter'', JArr [])])])]"
proof -
  have h: "crit_where crit_all = None"
    by (simp add: crit_all_def)
  have p: "page_and_sort crit_all = [(''from'', JNum 10), (''size'', JNum 5)]"
    by (simp add: page_and_sort_def crit_all_def)
  from find_no_where [of crit_all] h show ?thesis unfolding p by blast
qed

text \<open>Claim C7 as stated fails on the second \<^verbatim>\<open>find\<close>: its query is not \<^verbatim>\<open>match_all\<close>.\<close>

theorem find_no_where_counterexample:
  "find_body2 crit_all = JObj [(''query'', JObj [(''bool'', JObj [(''filter'', JArr [])])])] \<and>
   find_body2 crit_all \<noteq> JObj [(''query'', JObj [(''match_all'', JObj [])])]"
  by (simp add: find_body2_def crit_all_def)



section \<open>Properties of the response mapper\<close>

text \<open>The limit handed to \<^verbatim>\<open>async.eachLimit\<close> is never zero.\<close>

lemma asyncLimit_positive: "0 < asyncLimit configured"
  by (simp add: asyncLimit_def split: option.splits)

text \<open>An iteration whose iteratee pushes one value for each item and never fails gives the
  values in the order of the items.\<close>

lemma eachLimit_push:
  "eachLimit xs limit (\<lambda>e results. (results @ [f e], None)) acc = (acc @ map f xs, None)"
  by (induction xs arbitrary: acc) auto

lemma each_push:
  "each xs (\<lambda>e results. (results @ [f e], None)) acc = (acc @ map f xs, None)"
  by (induction xs arbitrary: acc) auto

lemma getHits_map:
  "getHits configured esResponse =
     CbOk (if resp_total esResponse = 0 then [] else map hitToModel (resp_hits esResponse))"
  by (simp add: getHits_def eachLimit_push)

lemma getFound_map:
  "getFound configured docs =
     CbOk (map (\<lambda>e. if hit_found e then hitToModel e else JBool False) docs)"
proof -
  have "(\<lambda>e results. if hit_found e then (results @ [hitToModel e], None)
                      else (results @ [JBool False], None)) =
        (\<lambda>e results. (results @ [if hit_found e then hitToModel e else JBool False], None :: error option))"
    by (intro ext) simp
  then show ?thesis
    by (simp add: getFound_def eachLimit_push)
qed

text \<open>The helpers on the registry \<open>kettle_connections\<close>.\<close>

lemma kettle_targets:
  "targets kettle_connections ''es'' ''item'' None = Inr (kettle_client, ''item'', Some ''item'')"
  by (simp add: targets_def getClient_def getIndex_def getType_def getCollection_def
        kettle_connections_def item_collection_def es_config_def)

lemma kettle_collection:
  "getPrimaryKeyField kettle_connections ''es'' ''item'' = Inr (Some ''id'')"
  "getAttributes kettle_connections ''es'' ''item'' = Inr (Some [])"
  by (simp_all add: getPrimaryKeyField_def getAttributes_def getCollection_def
        kettle_connections_def item_collection_def)

text \<open>
  Claim C3. When the client answers an \<^verbatim>\<open>mget\<close> request with one document for each requested
  identifier, in the order of the request, the callback gets a list of the same length in
  the same order: at each position the record of the document (its stored body with \<^verbatim>\<open>_id\<close>)
  when it was found, and \<^verbatim>\<open>false\<close> when it was not.
\<close>

theorem mget_positional:
  "targets connections connectionName collectionName index = Inr (client, indexName, typeName) \<and>
   client_mget client \<lparr>req_index = indexName, req_type = typeName, req_id = JUndefined,
       req_body = JObj [(''ids'', JArr primaryKeys)]\<rparr> = Inr docs \<and>
   length docs = length primaryKeys \<longrightarrow>
   (\<exists>results.
      snd (mget configured connections connectionName collectionName primaryKeys index) = CbOk results \<and>
      length results = length primaryKeys \<and>
      (\<forall>i<length primaryKeys.
         results ! i =
           (if hit_found (docs ! i)
            then JObj (set_prop (hit_source (docs ! i)) ''_id'' (hit_id (docs ! i)))
            else JBool False)))"
  by (auto simp: mget_def getFound_map hitToModel_def Let_def)

text \<open>The identifiers 1, 2, 3, of which only 2 exists: \<^verbatim>\<open>[false, record, false]\<close>.\<close>

theorem mget_positional_witness:
  "\<exists>results.
      snd (mget None kettle_connections ''es'' ''item'' [JNum 1, JNum 2, JNum 3] None) = CbOk results \<and>
      length results = 3 \<and>
      results ! 0 = JBool False \<and>
      results ! 1 = JObj [(''name'', JStr ''kettle''), (''_id'', JStr ''2'')] \<and>
      results ! 2 = JBool False"
proof -
  have h: "targets kettle_connections ''es'' ''item'' None =
        Inr (kettle_client, ''item'', Some ''item'') \<and>
      client_mget kettle_client \<lparr>req_index = ''item'', req_type = Some ''item'', req_id = JUndefined,
        req_body = JObj [(''ids'', JArr [JNum 1, JNum 2, JNum 3])]\<rparr> = Inr kettle_docs \<and>
      length kettle_docs = length [JNum 1, JNum 2, JNum 3]"
    by (simp add: kettle_targets kettle_client_def kettle_docs_def)
  from mget_positional [of kettle_connections "''es''" "''item''" None kettle_client "''item''"
      "Some ''item''" "[JNum 1, JNum 2, JNum 3]" kettle_docs None] h
  obtain results where r:
    "snd (mget None kettle_connections ''es'' ''item'' [JNum 1, JNum 2, JNum 3] None) = CbOk results"
    "length results = length [JNum 1, JNum 2, JNum 3]"
    "\<forall>i<length [JNum 1, JNum 2, JNum 3].
         results ! i =
           (if hit_found (kettle_docs ! i)
            then JObj (set_prop (hit_source (kettle_docs ! i)) ''_id'' (hit_id (kettle_docs ! i)))
            else JBool False)"
    by blast
  from r(3) have "results ! 0 = JBool False"
    "results ! 1 = JObj [(''name'', JStr ''kettle''), (''_id'', JStr ''2'')]"
    "results ! 2 = JBool False"
    by (simp_all add: kettle_docs_def)
  with r(1,2) show ?thesis by auto
qed

text \<open>With a hit total of zero the first \<^verbatim>\<open>getHits\<close> calls back with the empty list, whatever
  \<^verbatim>\<open>hits.hits\<close> holds; the second never calls back.\<close>

lemma getHits_zero_total:
  "resp_total esResponse = 0 \<Longrightarrow> getHits configured esResponse = CbOk []"
  by (simp add: getHits_def)

lemma getHits2_zero_total:
  "resp_total esResponse = 0 \<Longrightarrow> getHits2 esResponse = NoCb"
  by (simp add: getHits2_def)

text \<open>
  Claim C8 at a response without hits: the second \<^verbatim>\<open>getHits\<close> (lines 882 to 898) returns
  without invoking the callback, and so does the second \<^verbatim>\<open>find\<close>; the first \<^verbatim>\<open>getHits\<close> invokes
  it with the empty list.
\<close>

theorem getHits_no_hits:
  "getHits2 no_hits = NoCb \<and>
   snd (find_records2 kettle_connections ''es'' ''item'' crit_all None) = NoCb \<and>
   getHits configured no_hits = CbOk []"
  by (simp add: getHits2_def getHits_def no_hits_def find_records2_def kettle_targets
        kettle_client_def)

section \<open>Properties of the attribute restrictor\<close>

text \<open>What the body of the first definition does to an object and to a list of objects, and
  when it succeeds.\<close>

lemma delete_slots_none: "(\<And>e. \<not> P e) \<Longrightarrow> delete_slots P i xs = xs"
  by (induction xs arbitrary: i) auto

lemma delete_keys_truthy: "truthy v \<Longrightarrow> \<exists>v1. delete_keys P v = Inr v1 \<and> truthy v1"
  by (cases v) auto

lemma delete_keys_defined:
  "v \<notin> {JUndefined, JNull, JHole} \<Longrightarrow>
   \<exists>v1. delete_keys P v = Inr v1 \<and> v1 \<notin> {JUndefined, JNull, JHole}"
  by (cases v) auto

lemma restrict_elements_objects:
  "restrict_elements rs (map JObj objs) = Inr (map (\<lambda>obj. JObj (keep_keys rs obj)) objs)"
  by (induction objs) (auto simp: restrictObjectAttributes_def keep_keys_def)

lemma restrict_elements_total:
  "JNull \<notin> set es \<Longrightarrow> JUndefined \<notin> set es \<Longrightarrow> \<exists>es1. restrict_elements rs es = Inr es1"
proof (induction es)
  case Nil
  show ?case by simp
next
  case (Cons e es)
  then obtain es1 where es1: "restrict_elements rs es = Inr es1"
    by auto
  show ?case
  proof (cases "e = JHole")
    case True
    with es1 show ?thesis by simp
  next
    case False
    with Cons.prems have "e \<notin> {JUndefined, JNull, JHole}"
      by auto
    from delete_keys_defined [OF this, of "\<lambda>e. e \<notin> set rs"] obtain e1 where
      "restrictObjectAttributes rs e = Inr e1"
      by (auto simp: restrictObjectAttributes_def)
    with False es1 show ?thesis by simp
  qed
qed

lemma restrict_value_object:
  "attr_restrictAttributes d = Some rs \<Longrightarrow>
   restrict_value d (JObj obj) =
     Inr (JObj (drop_keys (case attr_skipAttributes d of None \<Rightarrow> [] | Some sk \<Rightarrow> sk)
                  (keep_keys rs obj)))"
  by (simp add: restrict_value_def restrictObjectAttributes_def drop_keys_def keep_keys_def
      split: option.splits)

lemma restrict_value_objects:
  "attr_restrictAttributes d = Some rs \<Longrightarrow>
   restrict_value d (JArr (map JObj objs)) =
     Inr (JArr (delete_slots (\<lambda>e. e \<in> set (case attr_skipAttributes d of None \<Rightarrow> [] | Some sk \<Rightarrow> sk)) 0
                  (map (\<lambda>obj. JObj (keep_keys rs obj)) objs)))"
  by (simp add: restrict_value_def restrict_elements_objects delete_slots_none
      split: option.splits)

lemma restrict_value_total:
  assumes "\<not> has_null_element v"
  shows "\<exists>v1. restrict_value d v = Inr v1"
proof -
  have first: "\<exists>v1. (case attr_restrictAttributes d of
              None \<Rightarrow> Inr v
            | Some restrictedFields \<Rightarrow>
                if truthy v then
                  (case v of
                     JArr es \<Rightarrow>
                       (case restrict_elements restrictedFields es of
                          Inl err \<Rightarrow> Inl err
                        | Inr es1 \<Rightarrow> Inr (JArr es1))
                   | _ \<Rightarrow> restrictObjectAttributes restrictedFields v)
                else Inr v) = Inr v1"
  proof (cases "attr_restrictAttributes d")
    case None
    then show ?thesis by simp
  next
    case (Some rs)
    show ?thesis
    proof (cases "truthy v")
      case False
      with Some show ?thesis by simp
    next
      case True
      show ?thesis
      proof (cases "\<exists>es. v = JArr es")
        case True
        then obtain es where es: "v = JArr es" by blast
        with assms have "JNull \<notin> set es" "JUndefined \<notin> set es" by auto
        from restrict_elements_total [OF this, of rs] obtain es1 where
          "restrict_elements rs es = Inr es1" by blast
        with Some es show ?thesis by simp
      next
        case False
        from delete_keys_truthy [OF True, of "\<lambda>e. e \<notin> set rs"] obtain v1 where
          "restrictObjectAttributes rs v = Inr v1"
          by (auto simp: restrictObjectAttributes_def)
        with Some True False show ?thesis by (cases v) auto
      qed
    qed
  qed
  then obtain v1 where v1: "(case attr_restrictAttributes d of
              None \<Rightarrow> Inr v
            | Some restrictedFields \<Rightarrow>
                if truthy v then
                  (case v of
                     JArr es \<Rightarrow>
                       (case restrict_elements restrictedFields es of
                          Inl err \<Rightarrow> Inl err
                        | Inr es1 \<Rightarrow> Inr (JArr es1))
                   | _ \<Rightarrow> restrictObjectAttributes restrictedFields v)
                else Inr v) = Inr v1"
    by blast
  have "\<exists>v2. (case attr_skipAttributes d of
             None \<Rightarrow> Inr v1
           | Some skipAttributes \<Rightarrow>
               if truthy v1 then delete_keys (\<lambda>e. e \<in> set skipAttributes) v1
               else Inr v1) = Inr v2"
    using delete_keys_truthy [of v1] by (auto split: option.splits)
  with v1 show ?thesis
    unfolding restrict_value_def by auto
qed

text \<open>
  The body of the second definition keeps a key of an object only when the key equals every
  name of the restrict list. With two different names in the list it deletes every key,
  those of the list too; with an empty list it deletes none.
\<close>

lemma restrict_value2_object:
  "attr_restrictAttributes d = Some rs \<Longrightarrow>
   restrict_value2 d (JObj obj) =
     Inr (JObj (drop_keys (case attr_skipAttributes d of None \<Rightarrow> [] | Some sk \<Rightarrow> sk)
                  (filter (\<lambda>kv. \<forall>r \<in> set rs. fst kv = r) obj)))"
  by (simp add: restrict_value2_def drop_keys_def split: option.splits)

lemma restrict_value2_two_names:
  assumes "attr_restrictAttributes d = Some rs" and "x \<in> set rs" and "y \<in> set rs" and "x \<noteq> y"
  shows "restrict_value2 d (JObj obj) = Inr (JObj [])"
proof -
  have "\<exists>r \<in> set rs. k \<noteq> r" for k
    using assms(2-4) by (cases "k = x") auto
  then have "filter (\<lambda>kv. \<forall>r \<in> set rs. fst kv = r) obj = []"
    by (auto simp: filter_empty_conv)
  then show ?thesis
    using restrict_value2_object [OF assms(1), of obj] by (simp add: drop_keys_def)
qed

lemma restrict_value2_no_names:
  "attr_restrictAttributes d = Some [] \<Longrightarrow> attr_skipAttributes d = None \<Longrightarrow>
   restrict_value2 d (JObj obj) = Inr (JObj obj)"
  by (simp add: restrict_value2_object drop_keys_def)

text \<open>A list of objects: the first definition restricts the element, the second deletes the
  list's own slot \<open>0\<close>, whose name differs from \<open>x\<close>.\<close>

lemma restrictAttributes_list_of_objects:
  "restrictAttributes (Some meta_x) values_list = Inr [(''meta'', JArr [JObj [(''x'', JNum 1)]])] \<and>
   restrictAttributes2 (Some meta_x) values_list = Inr [(''meta'', JArr [JHole])]"
  by (simp add: restrictAttributes_def restrictAttributes2_def meta_x_def values_list_def
      restrict_value_def restrict_value2_def restrictObjectAttributes_def get_prop_def
      store_value_def string_of_nat.simps digit_char_def)

text \<open>
  Claim C4 at a restrict list of two names, \<open>x\<close> and \<open>y\<close>, and the value
  \<^verbatim>\<open>{x:1, y:2, z:3}\<close>: the second \<^verbatim>\<open>restrictAttributes\<close> (lines 902 to 931) deletes \<open>x\<close> and \<open>y\<close> as
  well as \<open>z\<close> and leaves \<^verbatim>\<open>{}\<close>; the first (lines 143 to 187) leaves \<^verbatim>\<open>{x:1, y:2}\<close>.
\<close>

theorem restrictAttributes2_deletes_listed_keys:
  "restrictAttributes2 (Some meta_xy) values_xyz =
     Inr [(''name'', JStr ''kettle''), (''meta'', JObj [])] \<and>
   restrictAttributes (Some meta_xy) values_xyz =
     Inr [(''name'', JStr ''kettle''), (''meta'', JObj [(''x'', JNum 1), (''y'', JNum 2)])]"
  by (simp add: restrictAttributes_def restrictAttributes2_def meta_xy_def values_xyz_def
      restrict_value_def restrict_value2_def restrictObjectAttributes_def get_prop_def
      store_value_def)

section \<open>Properties of \<^verbatim>\<open>update\<close> and \<^verbatim>\<open>destroy\<close>\<close>

text \<open>When \<^verbatim>\<open>where\<close> is an object without the primary-key value that the operation reads, the
  callback gets the error and the client is not called. Without \<^verbatim>\<open>where\<close> the client is not
  called either, but no error reaches the callback.\<close>

lemma update_without_key:
  assumes "targets connections connectionName collectionName index = Inr t"
    and "getPrimaryKeyField connections connectionName collectionName = Inr primaryKeyField"
    and "getAttributes connections connectionName collectionName = Inr attributes"
    and "restrictAttributes attributes values = Inr restrictedValues"
    and "crit_where options = Some w"
    and "eq_undefined (get_prop w (case primaryKeyField of None \<Rightarrow> ''undefined'' | Some f \<Rightarrow> f))"
  shows "update connections connectionName collectionName options values index =
     ([], CbErr (Error ''You must specify the primary key of the record you wish to delete.''))"
  using assms by (cases t) (simp add: update_def Let_def)

lemma destroy_without_key:
  assumes "targets connections connectionName collectionName index = Inr t"
    and "crit_where options = Some w"
    and "eq_undefined (get_prop w ''primaryKey'')"
  shows "destroy connections connectionName collectionName options index =
     ([], CbErr (Error ''You must specify the primary key of the record you wish to delete.''))"
  using assms by (cases t) (simp add: destroy_def Let_def)

lemma update_without_where_no_calls:
  "crit_where options = None \<Longrightarrow>
   fst (update connections connectionName collectionName options values index) = [] \<and>
   (\<forall>e. snd (update connections connectionName collectionName options values index) \<noteq> CbErr e)"
  by (auto simp: update_def split: sum.splits prod.splits)

lemma destroy_without_where_no_calls:
  "crit_where options = None \<Longrightarrow>
   fst (destroy connections connectionName collectionName options index) = [] \<and>
   (\<forall>e. snd (destroy connections connectionName collectionName options index) \<noteq> CbErr e)"
  by (simp add: destroy_def split: sum.splits prod.splits)

text \<open>
  Claim C6 at criteria without \<^verbatim>\<open>where\<close>: both operations throw a \<^verbatim>\<open>TypeError\<close> when they read
  the primary key from \<^verbatim>\<open>options.where\<close>; the callback is not invoked. No request is made.
\<close>

theorem update_destroy_without_where:
  "update kettle_connections ''es'' ''item'' crit_all values_object None = ([], Threw TypeError) \<and>
   destroy kettle_connections ''es'' ''item'' crit_all None = ([], Threw TypeError)"
  by (simp add: update_def destroy_def kettle_targets kettle_collection restrictAttributes_def
        crit_all_def)

section \<open>The index of an operation\<close>

text \<open>The index name among the targets of an operation is the one \<^verbatim>\<open>getIndex\<close> gives.\<close>

lemma targets_index:
  "targets connections connectionName collectionName index = Inr (client, indexName, typeName) \<Longrightarrow>
   getIndex connections connectionName collectionName index = Inr indexName"
  by (auto simp: targets_def split: sum.splits)

text \<open>
  Claim C9. The index name is resolved by a fixed precedence: the explicit index argument
  when it is defined; otherwise, for a registered connection, the connection's configured
  \<^verbatim>\<open>index\<close> when that is defined, and the collection name when it is not. Every request that
  \<^verbatim>\<open>find\<close>, \<^verbatim>\<open>mget\<close>, \<^verbatim>\<open>update\<close> and \<^verbatim>\<open>destroy\<close> make on the client goes to the index so resolved.
\<close>

theorem getIndex_precedence:
  "getIndex connections connectionName collectionName (Some i) = Inr i \<and>
   (connections connectionName = Some reg \<longrightarrow>
      getIndex connections connectionName collectionName None =
        Inr (case cfg_index (reg_config reg) of Some j \<Rightarrow> j | None \<Rightarrow> collectionName)) \<and>
   (\<forall>c \<in> set (fst (find_records configured connections connectionName collectionName options index)).
      getIndex connections connectionName collectionName index = Inr (req_index (snd c))) \<and>
   (\<forall>c \<in> set (fst (mget configured connections connectionName collectionName primaryKeys index)).
      getIndex connections connectionName collectionName index = Inr (req_index (snd c))) \<and>
   (\<forall>c \<in> set (fst (update connections connectionName collectionName options values index)).
      getIndex connections connectionName collectionName index = Inr (req_index (snd c))) \<and>
   (\<forall>c \<in> set (fst (destroy connections connectionName collectionName options index)).
      getIndex connections connectionName collectionName index = Inr (req_index (snd c)))"
proof (intro conjI)
  show "getIndex connections connectionName collectionName (Some i) = Inr i"
    by (simp add: getIndex_def)
  show "connections connectionName = Some reg \<longrightarrow>
      getIndex connections connectionName collectionName None =
        Inr (case cfg_index (reg_config reg) of Some j \<Rightarrow> j | None \<Rightarrow> collectionName)"
    by (simp add: getIndex_def split: option.splits)
  show "\<forall>c \<in> set (fst (find_records configured connections connectionName collectionName options index)).
      getIndex connections connectionName collectionName index = Inr (req_index (snd c))"
    by (auto simp: find_records_def Let_def dest: targets_index split: sum.splits prod.splits)
  show "\<forall>c \<in> set (fst (mget configured connections connectionName collectionName primaryKeys index)).
      getIndex connections connectionName collectionName index = Inr (req_index (snd c))"
    by (auto simp: mget_def Let_def dest: targets_index split: sum.splits prod.splits)
  show "\<forall>c \<in> set (fst (update connections connectionName collectionName options values index)).
      getIndex connections connectionName collectionName index = Inr (req_index (snd c))"
    by (auto simp: update_def Let_def dest: targets_index
        split: sum.splits prod.splits option.splits if_splits)
  show "\<forall>c \<in> set (fst (destroy connections connectionName collectionName options index)).
      getIndex connections connectionName collectionName index = Inr (req_index (snd c))"
    by (auto simp: destroy_def Let_def dest: targets_index
        split: sum.splits prod.splits option.splits if_splits)
qed

text \<open>The helpers on the registry \<open>shop_connections\<close>.\<close>

lemma shop_targets:
  "targets shop_connections ''es'' ''item'' None = Inr (kettle_client, ''shop'', Some ''item'')"
  by (simp add: targets_def getClient_def getIndex_def getType_def getCollection_def
        shop_connections_def item_collection_def shop_config_def)

text \<open>The three levels of the precedence for the collection \<open>item\<close>, and the request of an
  \<^verbatim>\<open>mget\<close> on the configured index.\<close>

theorem getIndex_precedence_witness:
  "getIndex shop_connections ''es'' ''item'' (Some ''archive'') = Inr ''archive'' \<and>
   getIndex shop_connections ''es'' ''item'' None = Inr ''shop'' \<and>
   getIndex kettle_connections ''es'' ''item'' None = Inr ''item'' \<and>
   fst (mget None shop_connections ''es'' ''item'' [JNum 2] None) =
     [(Mget, \<lparr>req_index = ''shop'', req_type = Some ''item'', req_id = JUndefined,
              req_body = JObj [(''ids'', JArr [JNum 2])]\<rparr>)]"
proof -
  have regs: "shop_connections ''es'' = Some \<lparr>reg_config = shop_config,
        reg_collections = [''item'' \<mapsto> item_collection],
        reg_connection = Some \<lparr>conn_config = shop_config, conn_connection = kettle_client\<rparr>\<rparr>"
    "kettle_connections ''es'' = Some \<lparr>reg_config = es_config,
        reg_collections = [''item'' \<mapsto> item_collection],
        reg_connection = Some \<lparr>conn_config = es_config, conn_connection = kettle_client\<rparr>\<rparr>"
    by (simp_all add: shop_connections_def kettle_connections_def)
  have calls: "fst (mget None shop_connections ''es'' ''item'' [JNum 2] None) =
     [(Mget, \<lparr>req_index = ''shop'', req_type = Some ''item'', req_id = JUndefined,
              req_body = JObj [(''ids'', JArr [JNum 2])]\<rparr>)]"
    by (simp add: mget_def shop_targets kettle_client_def)
  from getIndex_precedence [of shop_connections "''es''" "''item''" "''archive''"
      "\<lparr>reg_config = shop_config, reg_collections = [''item'' \<mapsto> item_collection],
        reg_connection = Some \<lparr>conn_config = shop_config, conn_connection = kettle_client\<rparr>\<rparr>"] regs(1)
  have a: "getIndex shop_connections ''es'' ''item'' (Some ''archive'') = Inr ''archive''"
    "getIndex shop_connections ''es'' ''item'' None = Inr ''shop''"
    by (simp_all add: shop_config_def)
  from getIndex_precedence [of kettle_connections "''es''" "''item''" "''archive''"
      "\<lparr>reg_config = es_config, reg_collections = [''item'' \<mapsto> item_collection],
        reg_connection = Some \<lparr>conn_config = es_config, conn_connection = kettle_client\<rparr>\<rparr>"] regs(2)
  have b: "getIndex kettle_connections ''es'' ''item'' None = Inr ''item''"
    by (simp add: es_config_def)
  from a b calls show ?thesis by simp
qed

end
